theory Spec2Isabelle
  imports Complex_Main "HOL-Library.Sublist"
begin

text \<open>
  A model of the portfolio page of the dashboard: the aggregation of the holdings of a
  response into a snapshot (\<^verbatim>\<open>calculateValues\<close> and \<^verbatim>\<open>validatedData\<close> inside
  \<^verbatim>\<open>fetchPortfolioData\<close>), the cache in \<^verbatim>\<open>localStorage\<close>, the fetch with its fallback data,
  and the formatters of the holdings table. Definitions come first, each next to the
  source text it stands for; the properties follow.
\<close>

section \<open>JavaScript numbers\<close>

text \<open>
  The dashboard computes with JavaScript numbers and guards several of its paths with
  \<^verbatim>\<open>isFinite\<close>, so the three non-finite values are part of the model. A number is an
  exact real or one of \<^verbatim>\<open>Infinity\<close>, \<^verbatim>\<open>-Infinity\<close>, \<^verbatim>\<open>NaN\<close>. Arithmetic on finite values
  is exact: binary rounding, overflow of finite operands and the sign of zero are not
  modelled (a zero divisor is taken as \<^verbatim>\<open>+0\<close>).
\<close>

datatype jsnum = Num real | PosInf | NegInf | NaN

fun isFinite :: "jsnum \<Rightarrow> bool" where
  "isFinite (Num r) = True"
| "isFinite _ = False"

text \<open>Truthiness of a number: \<^verbatim>\<open>0\<close> and \<^verbatim>\<open>NaN\<close> are falsy.\<close>

fun truthy :: "jsnum \<Rightarrow> bool" where
  "truthy (Num r) = (r \<noteq> 0)"
| "truthy NaN = False"
| "truthy _ = True"

text \<open>\<^verbatim>\<open>a || b\<close> on numbers.\<close>

definition js_or :: "jsnum \<Rightarrow> jsnum \<Rightarrow> jsnum" where
  "js_or a b = (if truthy a then a else b)"

text \<open>
  \<^verbatim>\<open>Number(x)\<close> for a field that holds a number or is absent: \<^verbatim>\<open>Number(undefined)\<close> is
  \<^verbatim>\<open>NaN\<close>. An absent field is \<open>None\<close>.
\<close>

fun Number :: "jsnum option \<Rightarrow> jsnum" where
  "Number None = NaN"
| "Number (Some n) = n"

text \<open>The infinity with the sign of a real; \<^verbatim>\<open>NaN\<close> for sign zero.\<close>

definition inf_of_sign :: "real \<Rightarrow> jsnum" where
  "inf_of_sign s = (if s = 0 then NaN else if 0 < s then PosInf else NegInf)"

fun sign_of :: "jsnum \<Rightarrow> real" where
  "sign_of (Num r) = sgn r"
| "sign_of PosInf = 1"
| "sign_of NegInf = -1"
| "sign_of NaN = 0"

instantiation jsnum :: "{comm_monoid_add, times, minus, uminus, inverse, ord}"
begin

definition zero_jsnum :: jsnum where
  "zero_jsnum = Num 0"

fun plus_jsnum :: "jsnum \<Rightarrow> jsnum \<Rightarrow> jsnum" where
  "plus_jsnum (Num a) (Num b) = Num (a + b)"
| "plus_jsnum NaN _ = NaN"
| "plus_jsnum _ NaN = NaN"
| "plus_jsnum PosInf NegInf = NaN"
| "plus_jsnum NegInf PosInf = NaN"
| "plus_jsnum PosInf _ = PosInf"
| "plus_jsnum _ PosInf = PosInf"
| "plus_jsnum NegInf _ = NegInf"
| "plus_jsnum _ NegInf = NegInf"

fun uminus_jsnum :: "jsnum \<Rightarrow> jsnum" where
  "uminus_jsnum (Num a) = Num (- a)"
| "uminus_jsnum PosInf = NegInf"
| "uminus_jsnum NegInf = PosInf"
| "uminus_jsnum NaN = NaN"

definition minus_jsnum :: "jsnum \<Rightarrow> jsnum \<Rightarrow> jsnum" where
  "minus_jsnum a b = a + (- b)"

fun times_jsnum :: "jsnum \<Rightarrow> jsnum \<Rightarrow> jsnum" where
  "times_jsnum (Num a) (Num b) = Num (a * b)"
| "times_jsnum NaN _ = NaN"
| "times_jsnum _ NaN = NaN"
| "times_jsnum a b = inf_of_sign (sign_of a * sign_of b)"

fun divide_jsnum :: "jsnum \<Rightarrow> jsnum \<Rightarrow> jsnum" where
  "divide_jsnum (Num a) (Num b) = (if b = 0 then inf_of_sign a else Num (a / b))"
| "divide_jsnum NaN _ = NaN"
| "divide_jsnum _ NaN = NaN"
| "divide_jsnum (Num a) _ = Num 0"
| "divide_jsnum a (Num b) = inf_of_sign (sign_of a * (if 0 \<le> b then 1 else -1))"
| "divide_jsnum _ _ = NaN"

definition inverse_jsnum :: "jsnum \<Rightarrow> jsnum" where
  "inverse_jsnum a = Num 1 div a"

text \<open>\<^verbatim>\<open>a < b\<close> and \<^verbatim>\<open>a <= b\<close>: every comparison with \<^verbatim>\<open>NaN\<close> is false.\<close>

fun less_jsnum :: "jsnum \<Rightarrow> jsnum \<Rightarrow> bool" where
  "less_jsnum (Num a) (Num b) = (a < b)"
| "less_jsnum NaN _ = False"
| "less_jsnum _ NaN = False"
| "less_jsnum _ NegInf = False"
| "less_jsnum NegInf _ = True"
| "less_jsnum PosInf _ = False"
| "less_jsnum _ PosInf = True"

definition less_eq_jsnum :: "jsnum \<Rightarrow> jsnum \<Rightarrow> bool" where
  "less_eq_jsnum a b = (a < b \<or> (a = b \<and> a \<noteq> NaN))"

instance
proof (intro_classes, goal_cases)
  case (1 u v w)
  show ?case
    by (cases u; cases v; cases w; simp)
next
  case (2 u v)
  show ?case
    by (cases u; cases v; simp)
next
  case (3 u)
  show ?case
    by (cases u; simp add: zero_jsnum_def)
qed

end

section \<open>Strings\<close>

text \<open>
  \<^verbatim>\<open>s.split(sep)\<close> for a one-character separator: the pieces between the occurrences of
  the separator, at least one piece.
\<close>

fun split :: "char \<Rightarrow> string \<Rightarrow> string list" where
  "split sep [] = [[]]"
| "split sep (c # cs) =
     (if c = sep then [] # split sep cs
      else (case split sep cs of [] \<Rightarrow> [[c]] | p # ps \<Rightarrow> (c # p) # ps))"

text \<open>
  \<^verbatim>\<open>key.split('_')[0]\<close>. The array is never empty, so index 0 is always there.
\<close>

definition split0 :: "string \<Rightarrow> string" where
  "split0 key = (case split CHR ''_'' key of [] \<Rightarrow> [] | p # ps \<Rightarrow> p)"

text \<open>
  \<^verbatim>\<open>s.replace(pat, rep)\<close> with a string pattern: the first occurrence of the pattern, read
  from the left, is replaced; a string without the pattern is returned as it is.
\<close>

fun replace :: "string \<Rightarrow> string \<Rightarrow> string \<Rightarrow> string" where
  "replace pat rep [] = (if pat = [] then rep else [])"
| "replace pat rep (c # cs) =
     (if prefix pat (c # cs) then rep @ drop (length pat) (c # cs)
      else c # replace pat rep cs)"

text \<open>
  The asset symbol of a spot or margin record key (\<^verbatim>\<open>"BTC_spot"\<close>) and of a futures record
  key (\<^verbatim>\<open>"BTCUSDT_futures"\<close>), as the three loops of \<^verbatim>\<open>calculateValues\<close> compute them.
\<close>

definition spot_symbol :: "string \<Rightarrow> string" where
  "spot_symbol key = split0 key"

definition margin_symbol :: "string \<Rightarrow> string" where
  "margin_symbol key = split0 key"

definition futures_symbol :: "string \<Rightarrow> string" where
  "futures_symbol key = (let fullSymbol = split0 key in replace ''USDT'' '''' fullSymbol)"

section \<open>Data model\<close>

text \<open>
  The interfaces of the portfolio page. An optional field (\<^verbatim>\<open>change_24h?: number\<close>) is an
  \<open>option\<close>, \<open>None\<close> standing for \<^verbatim>\<open>undefined\<close>. The field \<^verbatim>\<open>value\<close> of \<^verbatim>\<open>AssetAllocation\<close>
  is \<open>alloc_value\<close> here and the portfolio-level \<^verbatim>\<open>change_24h\<close> of \<^verbatim>\<open>PortfolioData\<close> is
  \<open>portfolio_change_24h\<close>, to keep it apart from the field of \<^verbatim>\<open>Holding\<close>. The optional fields
  that no code path writes or reads (\<^verbatim>\<open>sector\<close>, \<^verbatim>\<open>spotCoinsCount\<close>, \<^verbatim>\<open>marginCoinsCount\<close>,
  \<^verbatim>\<open>futuresCoinsCount\<close> of the snapshot) are left out.
\<close>

record Holding =
  symbol :: string
  amount :: jsnum
  price_usd :: jsnum
  total_usd :: jsnum
  change_24h :: "jsnum option"
  avg_buy_price :: "jsnum option"
  pnl :: "jsnum option"
  pnl_percentage :: "jsnum option"
  first_buy_time :: "jsnum option"
  last_buy_time :: "jsnum option"

record AssetAllocation =
  asset :: string
  percentage :: jsnum
  alloc_value :: jsnum

record PortfolioData =
  total_value :: jsnum
  portfolio_change_24h :: jsnum
  holdings_count :: jsnum
  spot_value :: jsnum
  margin_value :: jsnum
  futures_value :: jsnum
  asset_allocation :: "AssetAllocation list option"
  sector_allocation :: "AssetAllocation list option"
  last_updated :: string

text \<open>
  The raw records of the API response, with the fields that \<^verbatim>\<open>calculateValues\<close> reads. Every
  numeric field may be absent: the code coerces each one with \<^verbatim>\<open>Number(...)\<close>.
\<close>

record SpotHoldingData =
  spot_total :: "jsnum option"
  spot_price_usd :: "jsnum option"
  spot_total_usd :: "jsnum option"
  spot_change_24h :: "jsnum option"
  spot_avg_buy_price :: "jsnum option"
  spot_pnl :: "jsnum option"
  spot_pnl_percentage :: "jsnum option"
  spot_first_buy_time :: "jsnum option"
  spot_last_buy_time :: "jsnum option"

record MarginHoldingData =
  margin_net_asset :: "jsnum option"
  margin_price_usd :: "jsnum option"
  margin_net_asset_usd :: "jsnum option"
  margin_change_24h :: "jsnum option"
  margin_avg_buy_price :: "jsnum option"
  margin_pnl :: "jsnum option"
  margin_pnl_percentage :: "jsnum option"
  margin_first_buy_time :: "jsnum option"
  margin_last_buy_time :: "jsnum option"

record FuturesHoldingData =
  futures_amount :: "jsnum option"
  futures_current_price :: "jsnum option"
  futures_usd_value :: "jsnum option"
  futures_change_24h :: "jsnum option"
  futures_entry_price :: "jsnum option"
  futures_unrealized_pnl :: "jsnum option"
  futures_unrealized_pnl_usd :: "jsnum option"

text \<open>
  A segment of the response is an object from record keys to records, read in the order
  of \<^verbatim>\<open>Object.entries\<close>; a record that is \<^verbatim>\<open>null\<close> is \<open>None\<close>, and so is a segment that is
  absent.
\<close>

record PortfolioApiData =
  spot_holdings :: "(string \<times> SpotHoldingData option) list option"
  margin_holdings :: "(string \<times> MarginHoldingData option) list option"
  futures_holdings :: "(string \<times> FuturesHoldingData option) list option"
  api_change_24h :: "jsnum option"

section \<open>The aggregation: \<^verbatim>\<open>calculateValues\<close>\<close>

text \<open>
  \<^verbatim>\<open>Set<string>\<close> and \<^verbatim>\<open>Map<string, number>\<close> keep insertion order, which \<^verbatim>\<open>forEach\<close>
  follows: a list without repetitions and an association list.
\<close>

definition set_add :: "string \<Rightarrow> string list \<Rightarrow> string list" where
  "set_add x xs = (if x \<in> set xs then xs else xs @ [x])"

fun map_set :: "string \<Rightarrow> jsnum \<Rightarrow> (string \<times> jsnum) list \<Rightarrow> (string \<times> jsnum) list" where
  "map_set k v [] = [(k, v)]"
| "map_set k v (e # m) = (if fst e = k then (k, v) # m else e # map_set k v m)"

text \<open>\<^verbatim>\<open>m.get(k) || 0\<close>.\<close>

definition get_or_zero :: "(string \<times> jsnum) list \<Rightarrow> string \<Rightarrow> jsnum" where
  "get_or_zero m k = (case map_of m k of None \<Rightarrow> Num 0 | Some v \<Rightarrow> js_or v (Num 0))"

text \<open>
  The accumulators that the three loops share: \<^verbatim>\<open>uniqueAssets\<close>, \<^verbatim>\<open>assetValues\<close> and the two
  sums of the weighted 24h change.
\<close>

record tracker =
  uniqueAssets :: "string list"
  assetValues :: "(string \<times> jsnum) list"
  totalWeightedChange :: jsnum
  totalValueWithChange :: jsnum

text \<open>The inclusion guard of the three loops, on the coerced values.\<close>

definition accepted :: "Holding \<Rightarrow> bool" where
  "accepted h \<longleftrightarrow>
     Num 0 < amount h \<and> isFinite (amount h) \<and> isFinite (price_usd h) \<and> Num 0 < total_usd h"

text \<open>
  The statements that each loop runs on the shared accumulators for an included holding.
\<close>

definition track :: "Holding \<Rightarrow> tracker \<Rightarrow> tracker" where
  "track h t =
     (let currentValue = get_or_zero (assetValues t) (symbol h);
          t1 = t\<lparr>uniqueAssets := set_add (symbol h) (uniqueAssets t),
                 assetValues := map_set (symbol h) (currentValue + total_usd h) (assetValues t)\<rparr>
      in case change_24h h of
           None \<Rightarrow> t1
         | Some c \<Rightarrow>
             if isFinite c
             then t1\<lparr>totalWeightedChange := totalWeightedChange t + c * total_usd h,
                      totalValueWithChange := totalValueWithChange t + total_usd h\<rparr>
             else t1)"

text \<open>
  The holding that a loop builds from a record key and a raw record. The three loops differ
  only here: in the fields they read and in the symbol they extract.
\<close>

definition spot_holding :: "string \<Rightarrow> SpotHoldingData \<Rightarrow> Holding" where
  "spot_holding key spotHolding =
     (let amt = js_or (Number (spot_total spotHolding)) (Num 0);
          price = js_or (Number (spot_price_usd spotHolding)) (Num 0);
          total = js_or (Number (spot_total_usd spotHolding)) (amt * price)
      in \<lparr>symbol = spot_symbol key, amount = amt, price_usd = price, total_usd = total,
          change_24h = spot_change_24h spotHolding,
          avg_buy_price = spot_avg_buy_price spotHolding,
          pnl = spot_pnl spotHolding,
          pnl_percentage = spot_pnl_percentage spotHolding,
          first_buy_time = spot_first_buy_time spotHolding,
          last_buy_time = spot_last_buy_time spotHolding\<rparr>)"

definition margin_holding :: "string \<Rightarrow> MarginHoldingData \<Rightarrow> Holding" where
  "margin_holding key marginHolding =
     (let amt = js_or (Number (margin_net_asset marginHolding)) (Num 0);
          price = js_or (Number (margin_price_usd marginHolding)) (Num 0);
          total = js_or (Number (margin_net_asset_usd marginHolding)) (amt * price)
      in \<lparr>symbol = margin_symbol key, amount = amt, price_usd = price, total_usd = total,
          change_24h = margin_change_24h marginHolding,
          avg_buy_price = margin_avg_buy_price marginHolding,
          pnl = margin_pnl marginHolding,
          pnl_percentage = margin_pnl_percentage marginHolding,
          first_buy_time = margin_first_buy_time marginHolding,
          last_buy_time = margin_last_buy_time marginHolding\<rparr>)"

definition futures_holding :: "string \<Rightarrow> FuturesHoldingData \<Rightarrow> Holding" where
  "futures_holding key futuresHolding =
     (let amt = js_or (Number (futures_amount futuresHolding)) (Num 0);
          price = js_or (Number (futures_current_price futuresHolding)) (Num 0);
          total = js_or (Number (futures_usd_value futuresHolding)) (amt * price)
      in \<lparr>symbol = futures_symbol key, amount = amt, price_usd = price, total_usd = total,
          change_24h = futures_change_24h futuresHolding,
          avg_buy_price = futures_entry_price futuresHolding,
          pnl = futures_unrealized_pnl futuresHolding,
          pnl_percentage =
            Some (Number (futures_unrealized_pnl_usd futuresHolding) / total * Num 100),
          first_buy_time = None,
          last_buy_time = None\<rparr>)"

text \<open>
  One round of a segment's \<^verbatim>\<open>forEach\<close>: the state is the shared accumulators, the segment's
  total and the segment's processed list.
\<close>

definition segment_step ::
  "(string \<Rightarrow> 'r \<Rightarrow> Holding) \<Rightarrow> tracker \<times> jsnum \<times> Holding list \<Rightarrow> string \<times> 'r option
     \<Rightarrow> tracker \<times> jsnum \<times> Holding list" where
  "segment_step mk st e =
     (case snd e of
        None \<Rightarrow> st
      | Some raw \<Rightarrow>
          (let h = mk (fst e) raw
           in if accepted h
              then (track h (fst st), fst (snd st) + total_usd h, snd (snd st) @ [h])
              else st))"

definition process_segment ::
  "(string \<Rightarrow> 'r \<Rightarrow> Holding) \<Rightarrow> tracker \<Rightarrow> (string \<times> 'r option) list option
     \<Rightarrow> tracker \<times> jsnum \<times> Holding list" where
  "process_segment mk t seg =
     (case seg of
        None \<Rightarrow> (t, Num 0, [])
      | Some entries \<Rightarrow> foldl (segment_step mk) (t, Num 0, []) entries)"

text \<open>\<^verbatim>\<open>Object.keys(seg).length\<close>, 0 for an absent segment.\<close>

definition keys_length :: "(string \<times> 'r) list option \<Rightarrow> nat" where
  "keys_length seg = (case seg of None \<Rightarrow> 0 | Some entries \<Rightarrow> length entries)"

text \<open>
  \<^verbatim>\<open>xs.sort(cmp)\<close>: the sort is stable, an element goes behind another when the comparator
  is positive, and a comparator that is \<^verbatim>\<open>NaN\<close> counts as zero.
\<close>

fun insert_sorted :: "('a \<Rightarrow> 'a \<Rightarrow> jsnum) \<Rightarrow> 'a \<Rightarrow> 'a list \<Rightarrow> 'a list" where
  "insert_sorted cmp x [] = [x]"
| "insert_sorted cmp x (y # ys) =
     (if Num 0 < cmp x y then y # insert_sorted cmp x ys else x # y # ys)"

definition sort_js :: "('a \<Rightarrow> 'a \<Rightarrow> jsnum) \<Rightarrow> 'a list \<Rightarrow> 'a list" where
  "sort_js cmp xs = foldr (insert_sorted cmp) xs []"

definition by_value_desc :: "AssetAllocation \<Rightarrow> AssetAllocation \<Rightarrow> jsnum" where
  "by_value_desc a b = alloc_value b - alloc_value a"

definition sectorMap :: "(string \<times> string) list" where
  "sectorMap =
     [(''BTC'', ''Store of Value''), (''ETH'', ''Smart Contract Platform''),
      (''BNB'', ''Exchange Token''), (''SOL'', ''Smart Contract Platform''),
      (''ADA'', ''Smart Contract Platform''), (''DOT'', ''Interoperability''),
      (''AVAX'', ''Smart Contract Platform''), (''LINK'', ''Oracle''),
      (''UNI'', ''DeFi''), (''AAVE'', ''DeFi''), (''COMP'', ''DeFi''), (''MKR'', ''DeFi''),
      (''SUSHI'', ''DeFi''), (''CAKE'', ''DeFi''), (''MATIC'', ''Layer 2''),
      (''LTC'', ''Payments''), (''XLM'', ''Payments''), (''XRP'', ''Payments''),
      (''DOGE'', ''Meme''), (''SHIB'', ''Meme''), (''FTT'', ''Exchange Token''),
      (''CRO'', ''Exchange Token''), (''FTM'', ''Smart Contract Platform''),
      (''ATOM'', ''Interoperability''), (''ALGO'', ''Smart Contract Platform''),
      (''NEAR'', ''Smart Contract Platform''), (''ICP'', ''Internet Services''),
      (''FIL'', ''Storage''), (''XTZ'', ''Smart Contract Platform''), (''AXS'', ''Gaming''),
      (''MANA'', ''Metaverse''), (''SAND'', ''Metaverse''), (''ENJ'', ''Gaming''),
      (''THETA'', ''Media''), (''CHZ'', ''Sports''), (''BAT'', ''Advertising''),
      (''XMR'', ''Privacy''), (''ZEC'', ''Privacy''), (''DASH'', ''Privacy'')]"

text \<open>
  \<^verbatim>\<open>sectorMap[asset] || 'Other'\<close>, for the table's own keys (a symbol that names a property
  inherited from \<^verbatim>\<open>Object.prototype\<close> is outside the model).
\<close>

definition mapAssetToSector :: "string \<Rightarrow> string" where
  "mapAssetToSector a = (case map_of sectorMap a of None \<Rightarrow> ''Other'' | Some s \<Rightarrow> s)"

definition allocation_entry :: "jsnum \<Rightarrow> string \<times> jsnum \<Rightarrow> AssetAllocation" where
  "allocation_entry calculatedTotalValue e =
     \<lparr>asset = fst e, percentage = (snd e / calculatedTotalValue) * Num 100,
      alloc_value = snd e\<rparr>"

text \<open>
  The array that a \<^verbatim>\<open>forEach\<close> over a value map pushes to: one entry for each positive
  value, nothing unless the total is positive.
\<close>

definition generate_allocation :: "jsnum \<Rightarrow> (string \<times> jsnum) list \<Rightarrow> AssetAllocation list" where
  "generate_allocation calculatedTotalValue m =
     (if Num 0 < calculatedTotalValue
      then map (allocation_entry calculatedTotalValue) (filter (\<lambda>e. Num 0 < snd e) m)
      else [])"

definition sector_step :: "(string \<times> jsnum) list \<Rightarrow> string \<times> jsnum \<Rightarrow> (string \<times> jsnum) list" where
  "sector_step sectorValues e =
     (if Num 0 < snd e
      then (let sector = mapAssetToSector (fst e);
                currentValue = get_or_zero sectorValues sector
            in map_set sector (currentValue + snd e) sectorValues)
      else sectorValues)"

definition generate_sectorValues :: "jsnum \<Rightarrow> (string \<times> jsnum) list \<Rightarrow> (string \<times> jsnum) list" where
  "generate_sectorValues calculatedTotalValue m =
     (if Num 0 < calculatedTotalValue then foldl sector_step [] m else [])"

record calculated =
  totalValue :: jsnum
  spotValue :: jsnum
  marginValue :: jsnum
  futuresValue :: jsnum
  uniqueAssetCount :: nat
  assetAllocation :: "AssetAllocation list"
  sectorAllocation :: "AssetAllocation list"
  spotCoinsCount :: nat
  marginCoinsCount :: nat
  futuresCoinsCount :: nat
  averageChange :: jsnum

definition tracker0 :: tracker where
  "tracker0 = \<lparr>uniqueAssets = [], assetValues = [], totalWeightedChange = Num 0,
               totalValueWithChange = Num 0\<rparr>"

text \<open>
  \<^verbatim>\<open>calculateValues\<close>: the returned object, and the three processed lists that it hands to
  \<^verbatim>\<open>setSpotHoldings\<close>, \<^verbatim>\<open>setMarginHoldings\<close> and \<^verbatim>\<open>setFuturesHoldings\<close>.
\<close>

definition calculateValues ::
  "PortfolioApiData \<Rightarrow> calculated \<times> Holding list \<times> Holding list \<times> Holding list" where
  "calculateValues data =
     (let s = process_segment spot_holding tracker0 (spot_holdings data);
          m = process_segment margin_holding (fst s) (margin_holdings data);
          f = process_segment futures_holding (fst m) (futures_holdings data);
          t = fst f;
          totalSpotValue = fst (snd s);
          totalMarginValue = fst (snd m);
          totalFuturesValue = fst (snd f);
          avgChange =
            (if Num 0 < totalValueWithChange t
             then totalWeightedChange t / totalValueWithChange t else Num 0);
          calculatedTotalValue = totalSpotValue + totalMarginValue + totalFuturesValue;
          generatedAssetAllocation =
            sort_js by_value_desc (generate_allocation calculatedTotalValue (assetValues t));
          sectorValues = generate_sectorValues calculatedTotalValue (assetValues t);
          generatedSectorAllocation =
            sort_js by_value_desc (generate_allocation calculatedTotalValue sectorValues)
      in (\<lparr>totalValue = calculatedTotalValue,
           spotValue = totalSpotValue,
           marginValue = totalMarginValue,
           futuresValue = totalFuturesValue,
           uniqueAssetCount = length (uniqueAssets t),
           assetAllocation = generatedAssetAllocation,
           sectorAllocation = generatedSectorAllocation,
           spotCoinsCount = keys_length (spot_holdings data),
           marginCoinsCount = keys_length (margin_holdings data),
           futuresCoinsCount = keys_length (futures_holdings data),
           averageChange = avgChange\<rparr>,
          snd (snd s), snd (snd m), snd (snd f)))"

text \<open>
  \<^verbatim>\<open>validatedData\<close>, the snapshot that a successful fetch builds from the response and from
  the calculated values; \<open>now\<close> is \<^verbatim>\<open>new Date().toLocaleTimeString()\<close>. The test
  \<^verbatim>\<open>averageChange !== undefined\<close> of the source always holds, \<^verbatim>\<open>averageChange\<close> being a number,
  and is left out.
\<close>

definition validatedData :: "string \<Rightarrow> PortfolioApiData \<Rightarrow> calculated \<Rightarrow> PortfolioData" where
  "validatedData now data calculatedValues =
     \<lparr>total_value =
        (if Num 0 < totalValue calculatedValues then totalValue calculatedValues else Num 0),
      portfolio_change_24h =
        (if isFinite (averageChange calculatedValues) then averageChange calculatedValues
         else if isFinite (Number (api_change_24h data)) then Number (api_change_24h data)
         else Num 0),
      holdings_count =
        Num (real
          (if 0 < uniqueAssetCount calculatedValues then uniqueAssetCount calculatedValues
           else keys_length (spot_holdings data) + keys_length (margin_holdings data)
                + keys_length (futures_holdings data))),
      spot_value =
        (if Num 0 < spotValue calculatedValues then spotValue calculatedValues else Num 0),
      margin_value =
        (if Num 0 < marginValue calculatedValues then marginValue calculatedValues else Num 0),
      futures_value =
        (if Num 0 < futuresValue calculatedValues then futuresValue calculatedValues
         else Num 0),
      asset_allocation = Some (assetAllocation calculatedValues),
      sector_allocation = Some (sectorAllocation calculatedValues),
      last_updated = now\<rparr>"

text \<open>The snapshot of a response, and the holdings that the aggregation included.\<close>

definition snapshot :: "string \<Rightarrow> PortfolioApiData \<Rightarrow> PortfolioData" where
  "snapshot now data = validatedData now data (fst (calculateValues data))"

definition included :: "PortfolioApiData \<Rightarrow> Holding list" where
  "included data =
     (case snd (calculateValues data) of
        (processedSpotHoldings, processedMarginHoldings, processedFuturesHoldings) \<Rightarrow>
          processedSpotHoldings @ processedMarginHoldings @ processedFuturesHoldings)"

section \<open>Notions of the specification\<close>

text \<open>
  The entries of a segment that pass the inclusion guard, in order; a holding that carries
  a finite \<^verbatim>\<open>change_24h\<close>; and the value-weighted mean of the 24h changes of a list of
  holdings, in the arithmetic of the program.
\<close>

definition candidates :: "(string \<Rightarrow> 'r \<Rightarrow> Holding) \<Rightarrow> (string \<times> 'r option) list \<Rightarrow> Holding list" where
  "candidates mk entries =
     concat (map (\<lambda>e. case snd e of
                         None \<Rightarrow> []
                       | Some raw \<Rightarrow> if accepted (mk (fst e) raw) then [mk (fst e) raw] else [])
                 entries)"

definition segment_candidates ::
  "(string \<Rightarrow> 'r \<Rightarrow> Holding) \<Rightarrow> (string \<times> 'r option) list option \<Rightarrow> Holding list" where
  "segment_candidates mk seg = (case seg of None \<Rightarrow> [] | Some entries \<Rightarrow> candidates mk entries)"

definition final_tracker :: "PortfolioApiData \<Rightarrow> tracker" where
  "final_tracker data = foldl (\<lambda>t h. track h t) tracker0 (included data)"



section \<open>The platform\<close>

text \<open>
  What the code takes from the JavaScript platform and its locale is a parameter of the
  model: \<open>Date_parse\<close> is \<^verbatim>\<open>Date.parse\<close> on a string (\<open>None\<close> for \<^verbatim>\<open>NaN\<close>, the string is not
  a date), \<open>toLocaleTimeString\<close> and \<open>toLocaleDateString\<close> render a valid time value, and
  \<open>numberFormat\<close> is \<^verbatim>\<open>new Intl.NumberFormat('en-US', options).format\<close> on a finite number.
\<close>

datatype nf_style = Decimal | Currency string | Percent

record nf_options =
  style :: nf_style
  minimumFractionDigits :: nat
  maximumFractionDigits :: nat
  signDisplayAlways :: bool

record platform =
  Date_parse :: "string \<Rightarrow> real option"
  toLocaleTimeString :: "real \<Rightarrow> string"
  toLocaleDateString :: "real \<Rightarrow> string"
  numberFormat :: "nf_options \<Rightarrow> real \<Rightarrow> string"

text \<open>
  \<^verbatim>\<open>new Date(s).toLocaleTimeString()\<close> for a string \<open>s\<close>: the text \<^verbatim>\<open>Invalid Date\<close> when the
  string does not parse.
\<close>

definition time_string_of :: "platform \<Rightarrow> string \<Rightarrow> string" where
  "time_string_of env s =
     (case Date_parse env s of None \<Rightarrow> ''Invalid Date'' | Some t \<Rightarrow> toLocaleTimeString env t)"

text \<open>
  \<^verbatim>\<open>new Date(n)\<close> for a number: the time value is the number cut to an integer, and the date
  is invalid (\<open>None\<close>) for a number that is not finite or beyond 8.64e15 milliseconds.
\<close>

definition new_Date :: "jsnum \<Rightarrow> real option" where
  "new_Date n =
     (case n of
        Num r \<Rightarrow>
          if \<bar>r\<bar> \<le> 8640000000000000
          then Some (if 0 \<le> r then of_int \<lfloor>r\<rfloor> else of_int \<lceil>r\<rceil>)
          else None
      | _ \<Rightarrow> None)"

definition date_string_of :: "platform \<Rightarrow> jsnum \<Rightarrow> string" where
  "date_string_of env n =
     (case new_Date n of None \<Rightarrow> ''Invalid Date'' | Some t \<Rightarrow> toLocaleDateString env t)"

section \<open>The formatters of the holdings table\<close>

definition formatCurrency :: "platform \<Rightarrow> jsnum \<Rightarrow> string" where
  "formatCurrency env v =
     (case v of
        Num r \<Rightarrow>
          numberFormat env
            \<lparr>style = Currency ''USD'', minimumFractionDigits = 2, maximumFractionDigits = 2,
             signDisplayAlways = False\<rparr> r
      | _ \<Rightarrow> ''$0.00'')"

text \<open>
  The number of fraction digits that \<^verbatim>\<open>formatNumber\<close> asks for, as both the minimum and the
  maximum: \<^verbatim>\<open>value < 0.1 ? decimals : 2\<close>.
\<close>

definition quantity_digits :: "jsnum \<Rightarrow> nat \<Rightarrow> nat" where
  "quantity_digits v decimals = (if v < Num (1 / 10) then decimals else 2)"

definition formatNumber :: "platform \<Rightarrow> jsnum \<Rightarrow> nat \<Rightarrow> string" where
  "formatNumber env v decimals =
     (case v of
        Num r \<Rightarrow>
          numberFormat env
            \<lparr>style = Decimal, minimumFractionDigits = quantity_digits v decimals,
             maximumFractionDigits = quantity_digits v decimals, signDisplayAlways = False\<rparr> r
      | _ \<Rightarrow> ''0'')"

text \<open>The call \<^verbatim>\<open>formatNumber(value)\<close>, with the default \<^verbatim>\<open>decimals = 6\<close>.\<close>

definition formatNumber_default :: "platform \<Rightarrow> jsnum \<Rightarrow> string" where
  "formatNumber_default env v = formatNumber env v 6"

definition formatPercentage :: "platform \<Rightarrow> jsnum option \<Rightarrow> string" where
  "formatPercentage env v =
     (case v of
        Some (Num r) \<Rightarrow>
          numberFormat env
            \<lparr>style = Percent, minimumFractionDigits = 2, maximumFractionDigits = 2,
             signDisplayAlways = True\<rparr> (r / 100)
      | _ \<Rightarrow> ''-'')"

text \<open>\<^verbatim>\<open>formatDate\<close>: \<^verbatim>\<open>!timestamp\<close> holds for an absent timestamp, for 0 and for \<^verbatim>\<open>NaN\<close>.\<close>

definition formatDate :: "platform \<Rightarrow> jsnum option \<Rightarrow> string" where
  "formatDate env timestamp =
     (case timestamp of
        None \<Rightarrow> []
      | Some n \<Rightarrow> if \<not> truthy n then [] else date_string_of env n)"

text \<open>
  The portfolio page has its own percentage formatter, without the sign and with another
  default.
\<close>

definition page_formatPercentage :: "platform \<Rightarrow> jsnum \<Rightarrow> string" where
  "page_formatPercentage env v =
     (case v of
        Num r \<Rightarrow>
          numberFormat env
            \<lparr>style = Percent, minimumFractionDigits = 2, maximumFractionDigits = 2,
             signDisplayAlways = False\<rparr> (r / 100)
      | _ \<Rightarrow> ''0.00%'')"

section \<open>The cache: \<^verbatim>\<open>saveDataToCache\<close> and \<^verbatim>\<open>loadCachedData\<close>\<close>

text \<open>
  \<^verbatim>\<open>localStorage\<close> maps keys to texts. The texts that the code stores are JSON, and an item is
  kept here as the JSON document that its text denotes, so that \<^verbatim>\<open>JSON.parse\<close> of a stored
  text is the stored document. Failures of the storage itself (quota, disabled storage, a
  text that is not JSON) are not modelled.
\<close>

datatype json = JNull | JNumber real | JString string | JArray "json list"
  | JObject "(string \<times> json) list"

type_synonym storage = "string \<Rightarrow> json option"

text \<open>
  \<^verbatim>\<open>JSON.stringify\<close>: a number that is not finite becomes \<^verbatim>\<open>null\<close>, and a property whose value
  is \<^verbatim>\<open>undefined\<close> is left out of its object.
\<close>

definition stringify_number :: "jsnum \<Rightarrow> json" where
  "stringify_number n = (case n of Num r \<Rightarrow> JNumber r | _ \<Rightarrow> JNull)"

definition properties :: "(string \<times> json option) list \<Rightarrow> json" where
  "properties ps =
     JObject (concat (map (\<lambda>p. case snd p of None \<Rightarrow> [] | Some v \<Rightarrow> [(fst p, v)]) ps))"

definition stringify_Holding :: "Holding \<Rightarrow> json" where
  "stringify_Holding h =
     properties
       [(''symbol'', Some (JString (symbol h))),
        (''amount'', Some (stringify_number (amount h))),
        (''price_usd'', Some (stringify_number (price_usd h))),
        (''total_usd'', Some (stringify_number (total_usd h))),
        (''change_24h'', map_option stringify_number (change_24h h)),
        (''avg_buy_price'', map_option stringify_number (avg_buy_price h)),
        (''pnl'', map_option stringify_number (pnl h)),
        (''pnl_percentage'', map_option stringify_number (pnl_percentage h)),
        (''first_buy_time'', map_option stringify_number (first_buy_time h)),
        (''last_buy_time'', map_option stringify_number (last_buy_time h))]"

definition stringify_Holdings :: "Holding list \<Rightarrow> json" where
  "stringify_Holdings hs = JArray (map stringify_Holding hs)"

definition stringify_AssetAllocation :: "AssetAllocation \<Rightarrow> json" where
  "stringify_AssetAllocation a =
     properties
       [(''asset'', Some (JString (asset a))),
        (''value'', Some (stringify_number (alloc_value a))),
        (''percentage'', Some (stringify_number (percentage a)))]"

definition stringify_PortfolioData :: "PortfolioData \<Rightarrow> json" where
  "stringify_PortfolioData d =
     properties
       [(''total_value'', Some (stringify_number (total_value d))),
        (''change_24h'', Some (stringify_number (portfolio_change_24h d))),
        (''holdings_count'', Some (stringify_number (holdings_count d))),
        (''spot_value'', Some (stringify_number (spot_value d))),
        (''margin_value'', Some (stringify_number (margin_value d))),
        (''futures_value'', Some (stringify_number (futures_value d))),
        (''asset_allocation'',
           map_option (\<lambda>as. JArray (map stringify_AssetAllocation as)) (asset_allocation d)),
        (''sector_allocation'',
           map_option (\<lambda>as. JArray (map stringify_AssetAllocation as)) (sector_allocation d)),
        (''last_updated'', Some (JString (last_updated d)))]"

text \<open>
  Reading a stored document at its declared type (\<^verbatim>\<open>JSON.parse(text) as PortfolioData\<close>). The
  cast is unchecked in the source. Here the result is \<open>None\<close> when the document does not have
  the declared type, as with \<^verbatim>\<open>null\<close> in the place of a number: what the program does with
  such a value is outside this model.
\<close>

definition required_number :: "(string \<times> json) list \<Rightarrow> string \<Rightarrow> jsnum option" where
  "required_number ps k = (case map_of ps k of Some (JNumber r) \<Rightarrow> Some (Num r) | _ \<Rightarrow> None)"

definition required_string :: "(string \<times> json) list \<Rightarrow> string \<Rightarrow> string option" where
  "required_string ps k = (case map_of ps k of Some (JString s) \<Rightarrow> Some s | _ \<Rightarrow> None)"

definition optional_number :: "(string \<times> json) list \<Rightarrow> string \<Rightarrow> jsnum option option" where
  "optional_number ps k =
     (case map_of ps k of
        None \<Rightarrow> Some None
      | Some (JNumber r) \<Rightarrow> Some (Some (Num r))
      | _ \<Rightarrow> None)"

fun all_some :: "'a option list \<Rightarrow> 'a list option" where
  "all_some [] = Some []"
| "all_some (None # xs) = None"
| "all_some (Some x # xs) = map_option ((#) x) (all_some xs)"

definition parse_Holding :: "json \<Rightarrow> Holding option" where
  "parse_Holding j =
     (case j of
        JObject ps \<Rightarrow>
          Option.bind (required_string ps ''symbol'') (\<lambda>s.
          Option.bind (required_number ps ''amount'') (\<lambda>a.
          Option.bind (required_number ps ''price_usd'') (\<lambda>p.
          Option.bind (required_number ps ''total_usd'') (\<lambda>t.
          Option.bind (optional_number ps ''change_24h'') (\<lambda>c.
          Option.bind (optional_number ps ''avg_buy_price'') (\<lambda>b.
          Option.bind (optional_number ps ''pnl'') (\<lambda>n.
          Option.bind (optional_number ps ''pnl_percentage'') (\<lambda>np.
          Option.bind (optional_number ps ''first_buy_time'') (\<lambda>fb.
          Option.bind (optional_number ps ''last_buy_time'') (\<lambda>lb.
            Some \<lparr>symbol = s, amount = a, price_usd = p, total_usd = t, change_24h = c,
                  avg_buy_price = b, pnl = n, pnl_percentage = np, first_buy_time = fb,
                  last_buy_time = lb\<rparr>))))))))))
      | _ \<Rightarrow> None)"

definition parse_Holdings :: "json \<Rightarrow> Holding list option" where
  "parse_Holdings j = (case j of JArray js \<Rightarrow> all_some (map parse_Holding js) | _ \<Rightarrow> None)"

definition parse_AssetAllocation :: "json \<Rightarrow> AssetAllocation option" where
  "parse_AssetAllocation j =
     (case j of
        JObject ps \<Rightarrow>
          Option.bind (required_string ps ''asset'') (\<lambda>a.
          Option.bind (required_number ps ''value'') (\<lambda>v.
          Option.bind (required_number ps ''percentage'') (\<lambda>p.
            Some \<lparr>asset = a, percentage = p, alloc_value = v\<rparr>)))
      | _ \<Rightarrow> None)"

definition optional_allocations ::
  "(string \<times> json) list \<Rightarrow> string \<Rightarrow> AssetAllocation list option option" where
  "optional_allocations ps k =
     (case map_of ps k of
        None \<Rightarrow> Some None
      | Some (JArray js) \<Rightarrow> map_option Some (all_some (map parse_AssetAllocation js))
      | _ \<Rightarrow> None)"

definition parse_PortfolioData :: "json \<Rightarrow> PortfolioData option" where
  "parse_PortfolioData j =
     (case j of
        JObject ps \<Rightarrow>
          Option.bind (required_number ps ''total_value'') (\<lambda>t.
          Option.bind (required_number ps ''change_24h'') (\<lambda>c.
          Option.bind (required_number ps ''holdings_count'') (\<lambda>n.
          Option.bind (required_number ps ''spot_value'') (\<lambda>s.
          Option.bind (required_number ps ''margin_value'') (\<lambda>m.
          Option.bind (required_number ps ''futures_value'') (\<lambda>f.
          Option.bind (optional_allocations ps ''asset_allocation'') (\<lambda>aa.
          Option.bind (optional_allocations ps ''sector_allocation'') (\<lambda>sa.
          Option.bind (required_string ps ''last_updated'') (\<lambda>u.
            Some \<lparr>total_value = t, portfolio_change_24h = c, holdings_count = n,
                  spot_value = s, margin_value = m, futures_value = f, asset_allocation = aa,
                  sector_allocation = sa, last_updated = u\<rparr>)))))))))
      | _ \<Rightarrow> None)"

section \<open>The state of the portfolio page\<close>

text \<open>The state variables of the component that the fetch and the cache touch.\<close>

record page_state =
  portfolioData :: PortfolioData
  spotHoldings :: "Holding list"
  marginHoldings :: "Holding list"
  futuresHoldings :: "Holding list"
  isLoading :: bool
  isRefreshing :: bool
  error :: "string option"

text \<open>The initial values of \<^verbatim>\<open>useState\<close>; \<open>now\<close> is \<^verbatim>\<open>new Date().toLocaleTimeString()\<close>.\<close>

definition initial_state :: "string \<Rightarrow> page_state" where
  "initial_state now =
     \<lparr>portfolioData =
        \<lparr>total_value = Num 0, portfolio_change_24h = Num 0, holdings_count = Num 0,
         spot_value = Num 0, margin_value = Num 0, futures_value = Num 0,
         asset_allocation = None, sector_allocation = None, last_updated = now\<rparr>,
      spotHoldings = [], marginHoldings = [], futuresHoldings = [],
      isLoading = False, isRefreshing = False, error = None\<rparr>"

definition saveDataToCache ::
  "PortfolioData \<Rightarrow> Holding list \<Rightarrow> Holding list \<Rightarrow> Holding list \<Rightarrow> storage \<Rightarrow> storage" where
  "saveDataToCache d spot margin futures store =
     store(''binance_portfolio_data'' \<mapsto> stringify_PortfolioData d,
           ''binance_spot_holdings'' \<mapsto> stringify_Holdings spot,
           ''binance_margin_holdings'' \<mapsto> stringify_Holdings margin,
           ''binance_futures_holdings'' \<mapsto> stringify_Holdings futures)"

text \<open>
  One item of the cache at its declared type: \<open>Some None\<close> when the key is absent, \<open>None\<close>
  when the stored document does not have the type.
\<close>

definition cached_item :: "(json \<Rightarrow> 'a option) \<Rightarrow> storage \<Rightarrow> string \<Rightarrow> 'a option option" where
  "cached_item parse store k =
     (case store k of None \<Rightarrow> Some None | Some j \<Rightarrow> map_option Some (parse j))"

text \<open>
  \<^verbatim>\<open>loadCachedData\<close>: the state after the setters it calls and the boolean it returns. It
  reads the storage and never writes it. The cached snapshot's \<^verbatim>\<open>last_updated\<close> is replaced by
  \<^verbatim>\<open>`${new Date(cachedData.last_updated).toLocaleTimeString()} (cached)`\<close>.
\<close>

definition loadCachedData :: "platform \<Rightarrow> storage \<Rightarrow> page_state \<Rightarrow> (page_state \<times> bool) option" where
  "loadCachedData env store st =
     Option.bind (cached_item parse_PortfolioData store ''binance_portfolio_data'') (\<lambda>cachedData.
     Option.bind (cached_item parse_Holdings store ''binance_spot_holdings'') (\<lambda>cachedSpot.
     Option.bind (cached_item parse_Holdings store ''binance_margin_holdings'') (\<lambda>cachedMargin.
     Option.bind (cached_item parse_Holdings store ''binance_futures_holdings'') (\<lambda>cachedFutures.
       Some
         (st\<lparr>portfolioData :=
                (case cachedData of
                   None \<Rightarrow> portfolioData st
                 | Some d \<Rightarrow>
                     d\<lparr>last_updated := time_string_of env (last_updated d) @ '' (cached)''\<rparr>),
              spotHoldings := (case cachedSpot of None \<Rightarrow> spotHoldings st | Some hs \<Rightarrow> hs),
              marginHoldings :=
                (case cachedMargin of None \<Rightarrow> marginHoldings st | Some hs \<Rightarrow> hs),
              futuresHoldings :=
                (case cachedFutures of None \<Rightarrow> futuresHoldings st | Some hs \<Rightarrow> hs)\<rparr>,
          cachedData \<noteq> None \<or> cachedSpot \<noteq> None \<or> cachedMargin \<noteq> None
            \<or> cachedFutures \<noteq> None)))))"

section \<open>The fetch: \<^verbatim>\<open>fetchPortfolioData\<close>\<close>

text \<open>
  The outcome of \<^verbatim>\<open>ApiService.getBinanceHoldings()\<close>: a response with status \<^verbatim>\<open>success\<close> and
  its data, a response with another status and its \<^verbatim>\<open>data.message\<close> if any, or a rejected
  call with the message of the thrown \<^verbatim>\<open>Error\<close> (\<open>None\<close> when the thrown value is not an
  \<^verbatim>\<open>Error\<close>).
\<close>

datatype api_result =
  Success PortfolioApiData
  | OtherStatus "string option"
  | Rejected "string option"

definition error_message :: "api_result \<Rightarrow> string" where
  "error_message r =
     (case r of
        OtherStatus (Some m) \<Rightarrow> if m \<noteq> [] then m else ''Failed to fetch portfolio data''
      | OtherStatus None \<Rightarrow> ''Failed to fetch portfolio data''
      | Rejected (Some m) \<Rightarrow> m
      | _ \<Rightarrow> ''Unknown error occurred'')"

text \<open>The hardcoded fallback snapshot and holdings of the \<^verbatim>\<open>catch\<close> block.\<close>

definition fallback_portfolioData :: "string \<Rightarrow> PortfolioData" where
  "fallback_portfolioData now =
     \<lparr>total_value = Num 34567.89, portfolio_change_24h = Num 2.5, holdings_count = Num 12,
      spot_value = Num 18932.45, margin_value = Num 8254.32, futures_value = Num 7381.12,
      asset_allocation = None, sector_allocation = None, last_updated = now\<rparr>"

definition sample_holding :: "string \<Rightarrow> real \<Rightarrow> real \<Rightarrow> real \<Rightarrow> real \<Rightarrow> Holding" where
  "sample_holding s a p t c =
     \<lparr>symbol = s, amount = Num a, price_usd = Num p, total_usd = Num t,
      change_24h = Some (Num c), avg_buy_price = None, pnl = None, pnl_percentage = None,
      first_buy_time = None, last_buy_time = None\<rparr>"

definition fallback_spotHoldings :: "Holding list" where
  "fallback_spotHoldings =
     [sample_holding ''BTC'' 0.45 42500 19125 2.3,
      sample_holding ''ETH'' 3.25 2800 9100 1.8,
      sample_holding ''SOL'' 42.8 135 5778 (- 0.7)]"

definition fallback_marginHoldings :: "Holding list" where
  "fallback_marginHoldings =
     [sample_holding ''BTC'' 0.12 42500 5100 2.3,
      sample_holding ''ETH'' 1.15 2800 3220 1.8]"

definition fallback_futuresHoldings :: "Holding list" where
  "fallback_futuresHoldings =
     [sample_holding ''BTC'' 0.08 42500 3400 2.3,
      sample_holding ''ETH'' 1.42 2800 3976 1.8]"

text \<open>
  \<^verbatim>\<open>fetchPortfolioData(isBackgroundRefresh)\<close>, from the call to the end of its \<^verbatim>\<open>finally\<close>
  block, as one step on the state and the storage. A setter replaces a state variable of
  the component; the names \<^verbatim>\<open>portfolioData\<close>, \<^verbatim>\<open>spotHoldings\<close>, \<^verbatim>\<open>marginHoldings\<close> and
  \<^verbatim>\<open>futuresHoldings\<close> that the function body reads are those of the render that created the
  function, which no setter changes: \<open>seen\<close> holds them.
\<close>

definition fetchPortfolioData ::
  "string \<Rightarrow> page_state \<Rightarrow> bool \<Rightarrow> api_result \<Rightarrow> page_state \<times> storage \<Rightarrow> page_state \<times> storage" where
  "fetchPortfolioData now seen isBackgroundRefresh response cur =
     (let st0 =
            (if isBackgroundRefresh then (fst cur)\<lparr>isRefreshing := True\<rparr>
             else (fst cur)\<lparr>isLoading := True\<rparr>)\<lparr>error := None\<rparr>;
          after =
            (case response of
               Success data \<Rightarrow>
                 (let calculatedValues = calculateValues data;
                      vd = validatedData now data (fst calculatedValues)
                  in (st0\<lparr>spotHoldings := fst (snd calculatedValues),
                          marginHoldings := fst (snd (snd calculatedValues)),
                          futuresHoldings := snd (snd (snd calculatedValues)),
                          portfolioData := vd\<rparr>,
                      saveDataToCache vd (spotHoldings seen) (marginHoldings seen)
                        (futuresHoldings seen) (snd cur)))
             | _ \<Rightarrow>
                 (if \<not> isBackgroundRefresh
                  then (let st1 = st0\<lparr>error := Some (error_message response)\<rparr>
                        in if total_value (portfolioData seen) = Num 0
                           then st1\<lparr>portfolioData := fallback_portfolioData now,
                                    spotHoldings := fallback_spotHoldings,
                                    marginHoldings := fallback_marginHoldings,
                                    futuresHoldings := fallback_futuresHoldings\<rparr>
                           else st1)
                  else st0,
                  snd cur))
      in (if isBackgroundRefresh then (fst after)\<lparr>isRefreshing := False\<rparr>
          else (fst after)\<lparr>isLoading := False\<rparr>,
          snd after))"

section \<open>Sample inputs\<close>

text \<open>
  Responses used to run the aggregation on concrete data. \<open>spot_record\<close> is a spot record
  with the three numeric fields and the 24h change given and every other field absent.
\<close>

definition spot_record :: "jsnum option \<Rightarrow> jsnum option \<Rightarrow> jsnum option \<Rightarrow> jsnum option \<Rightarrow> SpotHoldingData" where
  "spot_record amt price usd change =
     \<lparr>spot_total = amt, spot_price_usd = price, spot_total_usd = usd,
      spot_change_24h = change, spot_avg_buy_price = None, spot_pnl = None,
      spot_pnl_percentage = None, spot_first_buy_time = None, spot_last_buy_time = None\<rparr>"

definition margin_record :: "jsnum option \<Rightarrow> jsnum option \<Rightarrow> jsnum option \<Rightarrow> jsnum option \<Rightarrow> MarginHoldingData" where
  "margin_record amt price usd change =
     \<lparr>margin_net_asset = amt, margin_price_usd = price,
      margin_net_asset_usd = usd, margin_change_24h = change,
      margin_avg_buy_price = None, margin_pnl = None, margin_pnl_percentage = None,
      margin_first_buy_time = None, margin_last_buy_time = None\<rparr>"

definition futures_record :: "jsnum option \<Rightarrow> jsnum option \<Rightarrow> jsnum option \<Rightarrow> jsnum option \<Rightarrow> FuturesHoldingData" where
  "futures_record amt price usd change =
     \<lparr>futures_amount = amt, futures_current_price = price, futures_usd_value = usd,
      futures_change_24h = change, futures_entry_price = None, futures_unrealized_pnl = None,
      futures_unrealized_pnl_usd = None\<rparr>"

definition spot_only :: "(string \<times> SpotHoldingData option) list \<Rightarrow> jsnum option \<Rightarrow> PortfolioApiData" where
  "spot_only entries change =
     \<lparr>spot_holdings = Some entries, margin_holdings = None, futures_holdings = None,
      api_change_24h = change\<rparr>"

text \<open>
  The example of the specification: one BTC at 50000 with a change of 10 and two ETH at 2000
  with a change of -5.
\<close>

definition sample_data :: PortfolioApiData where
  "sample_data =
     spot_only
       [(''BTC_spot'', Some (spot_record (Some (Num 1)) (Some (Num 50000)) (Some (Num 50000))
                               (Some (Num 10)))),
        (''ETH_spot'', Some (spot_record (Some (Num 2)) (Some (Num 2000)) (Some (Num 4000))
                               (Some (Num (- 5)))))]
       None"

text \<open>A response with no holdings at all.\<close>

definition empty_data :: PortfolioApiData where
  "empty_data = spot_only [] None"

text \<open>
  One holding whose \<^verbatim>\<open>total_usd\<close> is \<^verbatim>\<open>Infinity\<close> (the JSON number \<^verbatim>\<open>1e999\<close> parses to
  it); the guard tests \<^verbatim>\<open>isFinite\<close> on \<^verbatim>\<open>amount\<close> and \<^verbatim>\<open>price_usd\<close> only.
\<close>

definition infinite_total_data :: PortfolioApiData where
  "infinite_total_data =
     spot_only
       [(''BTC_spot'', Some (spot_record (Some (Num 1)) (Some (Num 1)) (Some PosInf)
                               (Some (Num 5))))]
       None"


text \<open>
  A platform whose \<^verbatim>\<open>Date.parse\<close> takes no string for a date, as the engines do with a time
  of day alone such as \<^verbatim>\<open>10:30:15 AM\<close>; its renderers return fixed texts.
\<close>

definition sample_platform :: platform where
  "sample_platform =
     \<lparr>Date_parse = (\<lambda>s. None), toLocaleTimeString = (\<lambda>t. ''12:00:00 AM''),
      toLocaleDateString = (\<lambda>t. ''Jan 1, 1970''), numberFormat = (\<lambda>opts r. ''0'')\<rparr>"

text \<open>
  The values that survive \<^verbatim>\<open>JSON.stringify\<close>: every number is finite.
\<close>

definition finite_option :: "jsnum option \<Rightarrow> bool" where
  "finite_option x = (case x of None \<Rightarrow> True | Some n \<Rightarrow> isFinite n)"

definition finite_Holding :: "Holding \<Rightarrow> bool" where
  "finite_Holding h \<longleftrightarrow>
     isFinite (amount h) \<and> isFinite (price_usd h) \<and> isFinite (total_usd h) \<and>
     finite_option (change_24h h) \<and> finite_option (avg_buy_price h) \<and> finite_option (pnl h) \<and>
     finite_option (pnl_percentage h) \<and> finite_option (first_buy_time h) \<and>
     finite_option (last_buy_time h)"

definition finite_AssetAllocation :: "AssetAllocation \<Rightarrow> bool" where
  "finite_AssetAllocation a \<longleftrightarrow> isFinite (percentage a) \<and> isFinite (alloc_value a)"

definition finite_allocations :: "AssetAllocation list option \<Rightarrow> bool" where
  "finite_allocations x = (case x of None \<Rightarrow> True | Some as \<Rightarrow> list_all finite_AssetAllocation as)"

definition finite_PortfolioData :: "PortfolioData \<Rightarrow> bool" where
  "finite_PortfolioData d \<longleftrightarrow>
     isFinite (total_value d) \<and> isFinite (portfolio_change_24h d) \<and>
     isFinite (holdings_count d) \<and> isFinite (spot_value d) \<and> isFinite (margin_value d) \<and>
     isFinite (futures_value d) \<and> finite_allocations (asset_allocation d) \<and>
     finite_allocations (sector_allocation d)"

text \<open>A fetch fails when the call is rejected or the response has another status.\<close>

definition failed :: "api_result \<Rightarrow> bool" where
  "failed r = (case r of Success data \<Rightarrow> False | _ \<Rightarrow> True)"

text \<open>A component state and an empty storage to run the fetch and the cache on.\<close>

definition empty_storage :: storage where
  "empty_storage = (\<lambda>k. None)"

text \<open>
  The state and the storage after the interval's fetch, called with the function of the
  first render on a page mounted on an empty cache, has resolved with the sample response.
\<close>

definition after_interval_fetch :: "page_state \<times> storage" where
  "after_interval_fetch =
     fetchPortfolioData ''10:30:31 AM'' (initial_state ''10:30:00 AM'') True
       (Success sample_data) (initial_state ''10:30:00 AM'', empty_storage)"

text \<open>The malformed record of the specification, as a record of each segment.\<close>

definition malformed_spot :: SpotHoldingData where
  "malformed_spot = spot_record (Some (Num (- 1))) (Some (Num 100)) (Some (Num (- 100))) None"

definition malformed_margin :: MarginHoldingData where
  "malformed_margin = margin_record (Some (Num (- 1))) (Some (Num 100)) (Some (Num (- 100))) None"

definition malformed_futures :: FuturesHoldingData where
  "malformed_futures = futures_record (Some (Num (- 1))) (Some (Num 100)) (Some (Num (- 100))) None"

section \<open>Properties of the symbol extraction\<close>

lemma split_first:
  "(case split sep s of [] \<Rightarrow> [] | p # ps \<Rightarrow> p) = takeWhile (\<lambda>c. c \<noteq> sep) s"
  by (induction s) (auto split: list.splits)

lemma split0_takeWhile: "split0 key = takeWhile (\<lambda>c. c \<noteq> CHR ''_'') key"
  unfolding split0_def by (rule split_first)

lemma replace_absent: "\<not> sublist pat s \<Longrightarrow> replace pat rep s = s"
proof (induction s)
  case Nil
  then show ?case by auto
next
  case (Cons c cs)
  then show ?case by (auto simp: sublist_Cons_right)
qed

lemma prefix_overlap:
  assumes "prefix pat (a @ pat @ b)" and "a \<noteq> []" and "pat \<noteq> []"
  shows "prefix pat (a @ butlast pat)"
proof -
  have "butlast pat @ [last pat] = pat"
    using assms(3) by simp
  then have "a @ pat @ b = (a @ butlast pat) @ (last pat # b)"
    by (metis append.assoc append_Cons append_Nil)
  then have "prefix (a @ butlast pat) (a @ pat @ b)"
    by (metis prefixI)
  moreover have "length pat \<le> length (a @ butlast pat)"
    using assms(2,3) by (cases a) auto
  ultimately show ?thesis
    using assms(1) prefix_length_prefix by blast
qed

lemma replace_first:
  assumes "pat \<noteq> []" and "\<not> sublist pat (a @ butlast pat)"
  shows "replace pat rep (a @ pat @ b) = a @ rep @ b"
  using assms(2)
proof (induction a)
  case Nil
  obtain c cs where pc: "pat = c # cs" using assms(1) by (cases pat) auto
  show ?case by (simp add: pc)
next
  case (Cons x a)
  have np: "\<not> prefix pat ((x # a) @ pat @ b)"
  proof
    assume "prefix pat ((x # a) @ pat @ b)"
    then have "prefix pat ((x # a) @ butlast pat)"
      using prefix_overlap[of pat "x # a" b] assms(1) by simp
    then show False using Cons.prems by (auto simp: sublist_Cons_right)
  qed
  have "\<not> sublist pat (a @ butlast pat)"
    using Cons.prems by (auto simp: sublist_Cons_right)
  then show ?case using Cons.IH np by simp
qed

lemma first_occurrence:
  assumes "pat \<noteq> []" and "sublist pat s"
  shows "\<exists>a b. s = a @ pat @ b \<and> \<not> sublist pat (a @ butlast pat)"
  using assms(2)
proof (induction s)
  case Nil
  then show ?case using assms(1) by simp
next
  case (Cons c cs)
  show ?case
  proof (cases "prefix pat (c # cs)")
    case True
    then obtain b where "c # cs = pat @ b" by (auto simp: prefix_def)
    moreover have "\<not> sublist pat (butlast pat)"
      using assms(1) sublist_length_le[of pat "butlast pat"] by (cases pat) auto
    ultimately show ?thesis by (intro exI[of _ "[]"] exI[of _ b]) simp
  next
    case False
    with Cons.prems have "sublist pat cs" by (simp add: sublist_Cons_right)
    then obtain a b where ab: "cs = a @ pat @ b" "\<not> sublist pat (a @ butlast pat)"
      using Cons.IH by blast
    have "\<not> prefix pat (c # a @ butlast pat)"
    proof
      assume "prefix pat (c # a @ butlast pat)"
      then have p: "prefix pat ((c # a @ butlast pat) @ (last pat # b))"
        using prefix_prefix by blast
      have "butlast pat @ [last pat] = pat"
        using assms(1) by simp
      then have "(c # a @ butlast pat) @ (last pat # b) = c # a @ pat @ b"
        by (metis append.assoc append_Cons append_Nil)
      with p have "prefix pat (c # a @ pat @ b)" by metis
      then show False using False ab(1) by simp
    qed
    with ab have "c # cs = (c # a) @ pat @ b \<and> \<not> sublist pat ((c # a) @ butlast pat)"
      by (simp add: sublist_Cons_right)
    then show ?thesis by blast
  qed
qed

text \<open>
  C4, as the code has it. The symbol of a spot or margin record is the part of the key before
  its first underscore (the whole key when there is none). For a futures record the code
  then removes the first occurrence of \<^verbatim>\<open>USDT\<close> from that part, wherever it stands: a part
  without \<^verbatim>\<open>USDT\<close> is left unchanged, and a part \<open>a @ ''USDT'' @ b\<close> whose first occurrence of
  \<^verbatim>\<open>USDT\<close> starts after \<open>a\<close> becomes \<open>a @ b\<close>; such a decomposition exists whenever \<^verbatim>\<open>USDT\<close>
  occurs. In particular a trailing \<^verbatim>\<open>USDT\<close> is stripped when it is the first occurrence
  (\<open>b = []\<close>).
\<close>

theorem symbol_extraction:
  "spot_symbol key = takeWhile (\<lambda>c. c \<noteq> CHR ''_'') key \<and>
   margin_symbol key = takeWhile (\<lambda>c. c \<noteq> CHR ''_'') key \<and>
   (\<not> sublist ''USDT'' (spot_symbol key) \<longrightarrow> futures_symbol key = spot_symbol key) \<and>
   (\<forall>a b. spot_symbol key = a @ ''USDT'' @ b \<and> \<not> sublist ''USDT'' (a @ ''USD'')
      \<longrightarrow> futures_symbol key = a @ b) \<and>
   (sublist ''USDT'' (spot_symbol key) \<longrightarrow>
      (\<exists>a b. spot_symbol key = a @ ''USDT'' @ b \<and> \<not> sublist ''USDT'' (a @ ''USD'')))"
proof (intro conjI allI impI)
  show "spot_symbol key = takeWhile (\<lambda>c. c \<noteq> CHR ''_'') key"
    by (simp add: spot_symbol_def split0_takeWhile)
  show "margin_symbol key = takeWhile (\<lambda>c. c \<noteq> CHR ''_'') key"
    by (simp add: margin_symbol_def split0_takeWhile)
  show "futures_symbol key = spot_symbol key" if "\<not> sublist ''USDT'' (spot_symbol key)"
    using that by (simp add: futures_symbol_def spot_symbol_def replace_absent)
  show "futures_symbol key = a @ b"
    if "spot_symbol key = a @ ''USDT'' @ b \<and> \<not> sublist ''USDT'' (a @ ''USD'')" for a b
  proof -
    have "replace ''USDT'' [] (a @ ''USDT'' @ b) = a @ [] @ b"
      by (rule replace_first) (use that in simp_all)
    then show ?thesis
      using that by (simp add: futures_symbol_def spot_symbol_def)
  qed
  show "\<exists>a b. spot_symbol key = a @ ''USDT'' @ b \<and> \<not> sublist ''USDT'' (a @ ''USD'')"
    if "sublist ''USDT'' (spot_symbol key)"
    using first_occurrence[of "''USDT''" "spot_symbol key"] that by simp
qed

theorem symbol_extraction_witness:
  "spot_symbol ''BTC_spot'' = ''BTC'' \<and>
   \<not> sublist ''USDT'' (spot_symbol ''ETH_PERP'') \<and> futures_symbol ''ETH_PERP'' = ''ETH'' \<and>
   spot_symbol ''BTCUSDT_futures'' = ''BTC'' @ ''USDT'' @ [] \<and>
   \<not> sublist ''USDT'' (''BTC'' @ ''USD'') \<and> futures_symbol ''BTCUSDT_futures'' = ''BTC'' \<and>
   sublist ''USDT'' (spot_symbol ''BTCUSDT_futures'')"
proof -
  have s1: "spot_symbol ''BTC_spot'' = ''BTC''"
    using symbol_extraction[of "''BTC_spot''"] by simp
  have s2: "spot_symbol ''ETH_PERP'' = ''ETH''"
    using symbol_extraction[of "''ETH_PERP''"] by simp
  have n2: "\<not> sublist ''USDT'' (spot_symbol ''ETH_PERP'')"
    unfolding s2 by (simp add: sublist_Cons_right)
  have f2: "futures_symbol ''ETH_PERP'' = ''ETH''"
    using symbol_extraction[of "''ETH_PERP''"] n2 s2 by simp
  have s3: "spot_symbol ''BTCUSDT_futures'' = ''BTC'' @ ''USDT'' @ []"
    using symbol_extraction[of "''BTCUSDT_futures''"] by simp
  have n3: "\<not> sublist ''USDT'' (''BTC'' @ ''USD'')"
    by (simp add: sublist_Cons_right)
  have f3: "futures_symbol ''BTCUSDT_futures'' = ''BTC''"
    using symbol_extraction[of "''BTCUSDT_futures''"] s3 n3 by (metis append_Nil2)
  have o3: "sublist ''USDT'' (spot_symbol ''BTCUSDT_futures'')"
    unfolding s3 by (simp add: sublist_Cons_right)
  show ?thesis using s1 n2 f2 s3 n3 f3 o3 by blast
qed

text \<open>
  C4 as stated fails: the part \<^verbatim>\<open>USDTBUSD\<close> of the key \<^verbatim>\<open>USDTBUSD_futures\<close> does not end in
  \<^verbatim>\<open>USDT\<close>, yet the code changes it, to \<^verbatim>\<open>BUSD\<close>.
\<close>

theorem futures_symbol_not_suffix_counterexample:
  "\<not> suffix ''USDT'' (spot_symbol ''USDTBUSD_futures'') \<and>
   futures_symbol ''USDTBUSD_futures'' = ''BUSD'' \<and>
   futures_symbol ''USDTBUSD_futures'' \<noteq> spot_symbol ''USDTBUSD_futures''"
  by (simp add: futures_symbol_def spot_symbol_def split0_def suffix_def)

section \<open>Properties of numbers, sorting and value maps\<close>


lemma zero_is_Num [simp]: "(0::jsnum) = Num 0"
  by (simp add: zero_jsnum_def)

lemma pos_iff: "Num 0 < x \<longleftrightarrow> x = PosInf \<or> (\<exists>r. x = Num r \<and> 0 < r)"
  by (cases x) simp_all

lemma pos_add: "Num 0 < a \<Longrightarrow> Num 0 < b \<Longrightarrow> Num 0 < a + b"
  by (cases a; cases b) simp_all

lemma js_or_pos: "Num 0 < a \<Longrightarrow> js_or a b = a"
  by (cases a) (simp_all add: js_or_def)

lemma Num0_add [simp]: "Num 0 + a = a" "a + Num 0 = a"
  by (cases a; simp)+

lemma isFinite_add: "isFinite (a + b) \<longleftrightarrow> isFinite a \<and> isFinite b"
  by (cases a; cases b) simp_all

lemma isFinite_iff: "isFinite x \<longleftrightarrow> (\<exists>r. x = Num r)"
  by (cases x) simp_all

lemma sum_list_pos:
  "\<forall>x \<in> set xs. Num 0 < x \<Longrightarrow> xs \<noteq> [] \<Longrightarrow> Num 0 < sum_list xs"
proof (induction xs)
  case Nil
  then show ?case by simp
next
  case (Cons x xs)
  show ?case
  proof (cases "xs = []")
    case True
    then show ?thesis using Cons.prems by simp
  next
    case False
    then show ?thesis using Cons by (simp add: pos_add)
  qed
qed

lemma sum_list_finite: "isFinite (sum_list xs) \<longleftrightarrow> (\<forall>x \<in> set xs. isFinite x)"
  by (induction xs) (simp_all add: isFinite_add)

lemma cmp_positive: "Num 0 < b - a \<longleftrightarrow> a < b"
  by (cases a; cases b) (simp_all add: minus_jsnum_def)

lemma js_le_total: "a \<noteq> NaN \<Longrightarrow> b \<noteq> NaN \<Longrightarrow> \<not> a < b \<Longrightarrow> b \<le> a"
  by (cases a; cases b) (auto simp: less_eq_jsnum_def)

lemma js_less_imp_le: "a < b \<Longrightarrow> a \<le> (b::jsnum)"
  by (simp add: less_eq_jsnum_def)

lemma js_le_trans: "a \<le> b \<Longrightarrow> b \<le> c \<Longrightarrow> a \<le> (c::jsnum)"
  by (cases a; cases b; cases c) (auto simp: less_eq_jsnum_def)

lemma pos_not_NaN: "Num 0 < a \<Longrightarrow> a \<noteq> NaN"
  by (cases a) simp_all


lemma set_insert_sorted [simp]: "set (insert_sorted cmp x xs) = insert x (set xs)"
  by (induction xs) auto

lemma set_sort_js [simp]: "set (sort_js cmp xs) = set xs"
  unfolding sort_js_def by (induction xs) auto

lemma sum_insert_sorted:
  fixes f :: "'a \<Rightarrow> jsnum"
  shows "sum_list (map f (insert_sorted cmp x xs)) = f x + sum_list (map f xs)"
  by (induction xs) (simp_all add: add.left_commute)

lemma sum_sort_js:
  fixes f :: "'a \<Rightarrow> jsnum"
  shows "sum_list (map f (sort_js cmp xs)) = sum_list (map f xs)"
  unfolding sort_js_def by (induction xs) (simp_all add: sum_insert_sorted)

lemma sort_js_Nil [simp]: "sort_js cmp [] = []"
  by (simp add: sort_js_def)

lemma by_value_desc_pos: "Num 0 < by_value_desc x y \<longleftrightarrow> alloc_value x < alloc_value y"
  by (simp add: by_value_desc_def cmp_positive)

lemma sorted_insert_sorted:
  assumes "sorted_wrt (\<lambda>a b. alloc_value b \<le> alloc_value a) xs"
    and "\<forall>e \<in> set (x # xs). alloc_value e \<noteq> NaN"
  shows "sorted_wrt (\<lambda>a b. alloc_value b \<le> alloc_value a) (insert_sorted by_value_desc x xs)"
  using assms
proof (induction xs)
  case Nil
  then show ?case by simp
next
  case (Cons y ys)
  show ?case
  proof (cases "alloc_value x < alloc_value y")
    case True
    then have "alloc_value x \<le> alloc_value y" by (rule js_less_imp_le)
    moreover have "sorted_wrt (\<lambda>a b. alloc_value b \<le> alloc_value a) (insert_sorted by_value_desc x ys)"
      using Cons by simp
    ultimately show ?thesis
      using True Cons.prems(1) by (simp add: by_value_desc_pos)
  next
    case False
    then have yx: "alloc_value y \<le> alloc_value x"
      using Cons.prems(2) by (intro js_le_total) simp_all
    have "\<forall>z \<in> set ys. alloc_value z \<le> alloc_value x"
      using Cons.prems(1) yx js_le_trans by auto
    then show ?thesis
      using False yx Cons.prems(1) by (simp add: by_value_desc_pos)
  qed
qed

lemma sorted_sort_js:
  assumes "\<forall>e \<in> set xs. alloc_value e \<noteq> NaN"
  shows "sorted_wrt (\<lambda>a b. alloc_value b \<le> alloc_value a) (sort_js by_value_desc xs)"
  using assms
proof (induction xs)
  case Nil
  then show ?case by simp
next
  case (Cons x xs)
  have "sort_js by_value_desc (x # xs) = insert_sorted by_value_desc x (sort_js by_value_desc xs)"
    by (simp add: sort_js_def)
  then show ?case
    using Cons by (simp add: sorted_insert_sorted)
qed


lemma map_set_sum:
  assumes "\<forall>e \<in> set m. Num 0 < snd e"
  shows "sum_list (map snd (map_set k (get_or_zero m k + v) m)) = sum_list (map snd m) + v"
  using assms
proof (induction m)
  case Nil
  then show ?case by (simp add: get_or_zero_def)
next
  case (Cons e m)
  show ?case
  proof (cases "fst e = k")
    case True
    then have "get_or_zero (e # m) k = snd e"
      using Cons.prems by (cases e) (simp add: get_or_zero_def js_or_pos)
    then show ?thesis using True by (simp add: ac_simps)
  next
    case False
    then have "get_or_zero (e # m) k = get_or_zero m k"
      by (cases e) (simp add: get_or_zero_def)
    then show ?thesis using False Cons by (simp add: add.assoc)
  qed
qed

lemma set_map_set: "set (map_set k w m) \<subseteq> insert (k, w) (set m)"
  by (induction m) auto

lemma get_or_zero_nonneg:
  assumes "\<forall>e \<in> set m. Num 0 < snd e" and "Num 0 < v"
  shows "Num 0 < get_or_zero m k + v"
proof (cases "map_of m k")
  case None
  then show ?thesis using assms(2) by (simp add: get_or_zero_def)
next
  case (Some c)
  then have "(k, c) \<in> set m" by (rule map_of_SomeD)
  then have "Num 0 < c" using assms(1) by auto
  then show ?thesis using Some assms(2) by (simp add: get_or_zero_def js_or_pos pos_add)
qed

lemma map_set_pos:
  assumes "\<forall>e \<in> set m. Num 0 < snd e" and "Num 0 < v"
  shows "\<forall>e \<in> set (map_set k (get_or_zero m k + v) m). Num 0 < snd e"
  using set_map_set[of k "get_or_zero m k + v" m] get_or_zero_nonneg[OF assms] assms(1)
  by auto

section \<open>Properties of the aggregation\<close>


lemma segment_step_None: "snd e = None \<Longrightarrow> segment_step mk st e = st"
  by (simp add: segment_step_def)

lemma segment_step_rejected:
  "snd e = Some raw \<Longrightarrow> \<not> accepted (mk (fst e) raw) \<Longrightarrow> segment_step mk st e = st"
  by (simp add: segment_step_def)

lemma segment_step_accepted:
  "snd e = Some raw \<Longrightarrow> accepted (mk (fst e) raw) \<Longrightarrow>
   segment_step mk (t, tot, hs) e =
     (track (mk (fst e) raw) t, tot + total_usd (mk (fst e) raw), hs @ [mk (fst e) raw])"
  by (simp add: segment_step_def Let_def)

lemma candidates_Nil [simp]: "candidates mk [] = []"
  by (simp add: candidates_def)

lemma candidates_None: "snd e = None \<Longrightarrow> candidates mk (e # es) = candidates mk es"
  by (simp add: candidates_def)

lemma candidates_rejected:
  "snd e = Some raw \<Longrightarrow> \<not> accepted (mk (fst e) raw) \<Longrightarrow>
   candidates mk (e # es) = candidates mk es"
  by (simp add: candidates_def)

lemma candidates_accepted_Cons:
  "snd e = Some raw \<Longrightarrow> accepted (mk (fst e) raw) \<Longrightarrow>
   candidates mk (e # es) = mk (fst e) raw # candidates mk es"
  by (simp add: candidates_def)

lemma foldl_segment_step:
  "foldl (segment_step mk) (t, tot, hs) es =
     (foldl (\<lambda>t h. track h t) t (candidates mk es),
      tot + sum_list (map total_usd (candidates mk es)),
      hs @ candidates mk es)"
proof (induction es arbitrary: t tot hs)
  case Nil
  then show ?case by simp
next
  case (Cons e es)
  show ?case
  proof (cases "snd e")
    case None
    then show ?thesis
      using Cons[of t tot hs] by (simp add: segment_step_None candidates_None)
  next
    case (Some raw)
    show ?thesis
    proof (cases "accepted (mk (fst e) raw)")
      case True
      then show ?thesis
        using Some Cons[of "track (mk (fst e) raw) t" "tot + total_usd (mk (fst e) raw)" "hs @ [mk (fst e) raw]"]
        by (simp add: segment_step_accepted candidates_accepted_Cons add.assoc)
    next
      case False
      then show ?thesis
        using Some Cons[of t tot hs] by (simp add: segment_step_rejected candidates_rejected)
    qed
  qed
qed

lemma process_segment_eq:
  "process_segment mk t seg =
     (foldl (\<lambda>t h. track h t) t (segment_candidates mk seg),
      sum_list (map total_usd (segment_candidates mk seg)),
      segment_candidates mk seg)"
  by (cases seg) (simp_all add: process_segment_def segment_candidates_def foldl_segment_step)

lemma candidates_accepted: "h \<in> set (candidates mk es) \<Longrightarrow> accepted h"
  by (auto simp: candidates_def split: option.splits if_splits)

lemma segment_candidates_accepted: "h \<in> set (segment_candidates mk seg) \<Longrightarrow> accepted h"
  by (cases seg) (auto simp: segment_candidates_def dest: candidates_accepted)

lemma accepted_pos: "accepted h \<Longrightarrow> Num 0 < total_usd h"
  by (simp add: accepted_def)


lemma assetValues_track:
  "assetValues (track h t) =
     map_set (symbol h) (get_or_zero (assetValues t) (symbol h) + total_usd h) (assetValues t)"
  by (simp add: track_def Let_def split: option.splits)

lemma uniqueAssets_track:
  "uniqueAssets (track h t) = set_add (symbol h) (uniqueAssets t)"
  by (simp add: track_def Let_def split: option.splits)





lemma assetValues_foldl:
  assumes "\<forall>e \<in> set (assetValues t). Num 0 < snd e" and "\<forall>h \<in> set hs. Num 0 < total_usd h"
  shows "(\<forall>e \<in> set (assetValues (foldl (\<lambda>t h. track h t) t hs)). Num 0 < snd e) \<and>
         sum_list (map snd (assetValues (foldl (\<lambda>t h. track h t) t hs))) =
           sum_list (map snd (assetValues t)) + sum_list (map total_usd hs)"
  using assms
proof (induction hs arbitrary: t)
  case Nil
  then show ?case by simp
next
  case (Cons h hs)
  have p: "\<forall>e \<in> set (assetValues (track h t)). Num 0 < snd e"
    unfolding assetValues_track using Cons.prems by (intro map_set_pos) simp_all
  have s: "sum_list (map snd (assetValues (track h t))) =
             sum_list (map snd (assetValues t)) + total_usd h"
    unfolding assetValues_track using Cons.prems by (intro map_set_sum) simp_all
  show ?case
    using Cons.IH[OF p] Cons.prems(2) s by (simp add: add.assoc)
qed

lemma uniqueAssets_foldl:
  "uniqueAssets t = map fst (assetValues t) \<Longrightarrow>
   uniqueAssets (foldl (\<lambda>t h. track h t) t hs) = map fst (assetValues (foldl (\<lambda>t h. track h t) t hs))"
proof (induction hs arbitrary: t)
  case Nil
  then show ?case by simp
next
  case (Cons h hs)
  have k: "map fst (map_set k w m) = set_add k (map fst m)" for k w m
    by (induction m) (auto simp: set_add_def)
  have "uniqueAssets (track h t) = map fst (assetValues (track h t))"
    using Cons.prems by (simp add: uniqueAssets_track assetValues_track k)
  then show ?case
    using Cons.IH[of "track h t"] by simp
qed


lemma included_eq:
  "included data =
     segment_candidates spot_holding (spot_holdings data)
     @ segment_candidates margin_holding (margin_holdings data)
     @ segment_candidates futures_holding (futures_holdings data)"
  by (simp add: included_def calculateValues_def Let_def process_segment_eq)

lemma included_accepted: "h \<in> set (included data) \<Longrightarrow> accepted h"
  unfolding included_eq by (auto dest: segment_candidates_accepted)

lemma included_pos: "\<forall>h \<in> set (included data). Num 0 < total_usd h"
  using included_accepted accepted_pos by blast

lemma totalValue_eq:
  "totalValue (fst (calculateValues data)) = sum_list (map total_usd (included data))"
  by (simp add: calculateValues_def Let_def process_segment_eq included_eq add.assoc)

lemma segment_values_eq:
  "spotValue (fst (calculateValues data)) =
     sum_list (map total_usd (segment_candidates spot_holding (spot_holdings data)))"
  "marginValue (fst (calculateValues data)) =
     sum_list (map total_usd (segment_candidates margin_holding (margin_holdings data)))"
  "futuresValue (fst (calculateValues data)) =
     sum_list (map total_usd (segment_candidates futures_holding (futures_holdings data)))"
  by (simp_all add: calculateValues_def Let_def process_segment_eq)

lemma assetAllocation_eq:
  "assetAllocation (fst (calculateValues data)) =
     sort_js by_value_desc
       (generate_allocation (totalValue (fst (calculateValues data)))
          (assetValues (final_tracker data)))"
  by (simp add: calculateValues_def Let_def process_segment_eq included_eq final_tracker_def)

lemma sectorAllocation_eq:
  "sectorAllocation (fst (calculateValues data)) =
     sort_js by_value_desc
       (generate_allocation (totalValue (fst (calculateValues data)))
          (generate_sectorValues (totalValue (fst (calculateValues data)))
             (assetValues (final_tracker data))))"
  by (simp add: calculateValues_def Let_def process_segment_eq included_eq final_tracker_def)


lemma clamp_sum:
  assumes "\<forall>x \<in> set xs. Num 0 < x"
  shows "(if Num 0 < sum_list xs then sum_list xs else Num 0) = sum_list xs"
proof (cases "xs = []")
  case True
  then show ?thesis by simp
next
  case False
  then show ?thesis using sum_list_pos[OF assms] by simp
qed


lemma segment_pos:
  "\<forall>x \<in> set (map total_usd (segment_candidates mk seg)). Num 0 < x"
  using segment_candidates_accepted accepted_pos by fastforce

lemma clamp_value:
  assumes "\<forall>x \<in> set xs. Num 0 < x" and "v = sum_list xs"
  shows "(if Num 0 < v then v else Num 0) = sum_list xs"
  unfolding assms(2) by (rule clamp_sum[OF assms(1)])

lemma total_value_snapshot:
  "total_value (snapshot now data) = sum_list (map total_usd (included data))"
proof -
  have "\<forall>x \<in> set (map total_usd (included data)). Num 0 < x"
    using included_pos by simp
  then have "(if Num 0 < totalValue (fst (calculateValues data))
              then totalValue (fst (calculateValues data)) else Num 0) =
             sum_list (map total_usd (included data))"
    by (rule clamp_value) (rule totalValue_eq)
  then show ?thesis
    by (simp only: snapshot_def validatedData_def PortfolioData.simps)
qed

lemma segment_values_snapshot:
  "spot_value (snapshot now data) =
     sum_list (map total_usd (segment_candidates spot_holding (spot_holdings data)))"
  "margin_value (snapshot now data) =
     sum_list (map total_usd (segment_candidates margin_holding (margin_holdings data)))"
  "futures_value (snapshot now data) =
     sum_list (map total_usd (segment_candidates futures_holding (futures_holdings data)))"
proof -
  have "(if Num 0 < spotValue (fst (calculateValues data))
         then spotValue (fst (calculateValues data)) else Num 0) =
        sum_list (map total_usd (segment_candidates spot_holding (spot_holdings data)))"
    by (rule clamp_value[OF segment_pos]) (rule segment_values_eq)
  then show "spot_value (snapshot now data) =
     sum_list (map total_usd (segment_candidates spot_holding (spot_holdings data)))"
    by (simp only: snapshot_def validatedData_def PortfolioData.simps)
  have "(if Num 0 < marginValue (fst (calculateValues data))
         then marginValue (fst (calculateValues data)) else Num 0) =
        sum_list (map total_usd (segment_candidates margin_holding (margin_holdings data)))"
    by (rule clamp_value[OF segment_pos]) (rule segment_values_eq)
  then show "margin_value (snapshot now data) =
     sum_list (map total_usd (segment_candidates margin_holding (margin_holdings data)))"
    by (simp only: snapshot_def validatedData_def PortfolioData.simps)
  have "(if Num 0 < futuresValue (fst (calculateValues data))
         then futuresValue (fst (calculateValues data)) else Num 0) =
        sum_list (map total_usd (segment_candidates futures_holding (futures_holdings data)))"
    by (rule clamp_value[OF segment_pos]) (rule segment_values_eq)
  then show "futures_value (snapshot now data) =
     sum_list (map total_usd (segment_candidates futures_holding (futures_holdings data)))"
    by (simp only: snapshot_def validatedData_def PortfolioData.simps)
qed

lemma final_assetValues:
  "(\<forall>e \<in> set (assetValues (final_tracker data)). Num 0 < snd e) \<and>
   sum_list (map snd (assetValues (final_tracker data))) = sum_list (map total_usd (included data))"
  unfolding final_tracker_def
  using assetValues_foldl[of tracker0 "included data"] included_pos
  by (simp add: tracker0_def)

lemma filter_pos_id: "\<forall>e \<in> set m. Num 0 < snd e \<Longrightarrow> filter (\<lambda>e. Num 0 < snd e) m = m"
  by (induction m) auto

lemma alloc_value_entry [simp]: "alloc_value (allocation_entry T e) = snd e"
  by (simp add: allocation_entry_def)

lemma percentage_entry [simp]: "percentage (allocation_entry T e) = (snd e / T) * Num 100"
  by (simp add: allocation_entry_def)

lemma generate_allocation_sum:
  assumes "\<forall>e \<in> set m. Num 0 < snd e"
  shows "sum_list (map alloc_value (generate_allocation (sum_list (map snd m)) m)) = sum_list (map snd m)"
proof (cases "m = []")
  case True
  then show ?thesis by (simp add: generate_allocation_def)
next
  case False
  have "\<forall>x \<in> set (map snd m). Num 0 < x" using assms by simp
  then have "Num 0 < sum_list (map snd m)"
    using False sum_list_pos[of "map snd m"] by simp
  then show ?thesis
    using assms by (simp add: generate_allocation_def filter_pos_id comp_def)
qed

lemma sector_step_props:
  assumes "\<forall>e \<in> set acc. Num 0 < snd e" and "Num 0 < snd e"
  shows "(\<forall>x \<in> set (sector_step acc e). Num 0 < snd x) \<and>
         sum_list (map snd (sector_step acc e)) = sum_list (map snd acc) + snd e"
  using assms map_set_pos[OF assms] map_set_sum[OF assms(1)]
  by (simp add: sector_step_def Let_def)

lemma foldl_sector_step:
  assumes "\<forall>e \<in> set acc. Num 0 < snd e" and "\<forall>e \<in> set m. Num 0 < snd e"
  shows "(\<forall>x \<in> set (foldl sector_step acc m). Num 0 < snd x) \<and>
         sum_list (map snd (foldl sector_step acc m)) = sum_list (map snd acc) + sum_list (map snd m)"
  using assms
proof (induction m arbitrary: acc)
  case Nil
  then show ?case by simp
next
  case (Cons e m)
  have st: "(\<forall>x \<in> set (sector_step acc e). Num 0 < snd x) \<and>
         sum_list (map snd (sector_step acc e)) = sum_list (map snd acc) + snd e"
    using Cons.prems by (intro sector_step_props) simp_all
  show ?case
    using Cons.IH[of "sector_step acc e"] st Cons.prems(2) by (simp add: add.assoc)
qed

lemma generate_sectorValues_props:
  assumes "\<forall>e \<in> set m. Num 0 < snd e"
  shows "(\<forall>x \<in> set (generate_sectorValues (sum_list (map snd m)) m). Num 0 < snd x) \<and>
         sum_list (map snd (generate_sectorValues (sum_list (map snd m)) m)) = sum_list (map snd m)"
proof (cases "m = []")
  case True
  then show ?thesis by (simp add: generate_sectorValues_def)
next
  case False
  have "\<forall>x \<in> set (map snd m). Num 0 < x" using assms by simp
  then have "Num 0 < sum_list (map snd m)"
    using False sum_list_pos[of "map snd m"] by simp
  then show ?thesis
    using foldl_sector_step[of "[]" m] assms by (simp add: generate_sectorValues_def)
qed





lemma candidates_append: "candidates mk (xs @ ys) = candidates mk xs @ candidates mk ys"
  by (simp add: candidates_def)

lemma candidates_drop:
  "\<not> accepted (mk k r) \<Longrightarrow> candidates mk (xs @ (k, Some r) # ys) = candidates mk (xs @ ys)"
  by (simp add: candidates_append candidates_rejected)

lemma snapshot_scalars_not_NaN:
  "total_value (snapshot now data) \<noteq> NaN \<and> spot_value (snapshot now data) \<noteq> NaN \<and>
   margin_value (snapshot now data) \<noteq> NaN \<and> futures_value (snapshot now data) \<noteq> NaN \<and>
   portfolio_change_24h (snapshot now data) \<noteq> NaN \<and> holdings_count (snapshot now data) \<noteq> NaN"
  by (auto simp: snapshot_def validatedData_def)

lemma spot_drop:
  assumes "\<not> accepted (spot_holding k r)"
  shows "calculateValues (data\<lparr>spot_holdings := Some (xs @ (k, Some r) # ys)\<rparr>) =
           (case calculateValues (data\<lparr>spot_holdings := Some (xs @ ys)\<rparr>) of
              (c, processed) \<Rightarrow> (c\<lparr>spotCoinsCount := Suc (spotCoinsCount c)\<rparr>, processed))"
  using assms
  by (simp add: calculateValues_def Let_def process_segment_eq segment_candidates_def
      candidates_drop keys_length_def)

lemma margin_drop:
  assumes "\<not> accepted (margin_holding k r)"
  shows "calculateValues (data\<lparr>margin_holdings := Some (xs @ (k, Some r) # ys)\<rparr>) =
           (case calculateValues (data\<lparr>margin_holdings := Some (xs @ ys)\<rparr>) of
              (c, processed) \<Rightarrow> (c\<lparr>marginCoinsCount := Suc (marginCoinsCount c)\<rparr>, processed))"
  using assms
  by (simp add: calculateValues_def Let_def process_segment_eq segment_candidates_def
      candidates_drop keys_length_def)

lemma futures_drop:
  assumes "\<not> accepted (futures_holding k r)"
  shows "calculateValues (data\<lparr>futures_holdings := Some (xs @ (k, Some r) # ys)\<rparr>) =
           (case calculateValues (data\<lparr>futures_holdings := Some (xs @ ys)\<rparr>) of
              (c, processed) \<Rightarrow> (c\<lparr>futuresCoinsCount := Suc (futuresCoinsCount c)\<rparr>, processed))"
  using assms
  by (simp add: calculateValues_def Let_def process_segment_eq segment_candidates_def
      candidates_drop keys_length_def)

lemma snapshot_drop:
  assumes "calculateValues d' = (case calculateValues d of (c, processed) \<Rightarrow> (f c, processed))"
    and "totalValue (f (fst (calculateValues d))) = totalValue (fst (calculateValues d))"
    and "spotValue (f (fst (calculateValues d))) = spotValue (fst (calculateValues d))"
    and "marginValue (f (fst (calculateValues d))) = marginValue (fst (calculateValues d))"
    and "futuresValue (f (fst (calculateValues d))) = futuresValue (fst (calculateValues d))"
    and "averageChange (f (fst (calculateValues d))) = averageChange (fst (calculateValues d))"
    and "assetAllocation (f (fst (calculateValues d))) = assetAllocation (fst (calculateValues d))"
    and "sectorAllocation (f (fst (calculateValues d))) = sectorAllocation (fst (calculateValues d))"
    and "api_change_24h d' = api_change_24h d"
  shows "snapshot now d' = (snapshot now d)\<lparr>holdings_count := holdings_count (snapshot now d')\<rparr>"
proof -
  have "fst (calculateValues d') = f (fst (calculateValues d))"
    using assms(1) by (simp add: case_prod_unfold)
  then show ?thesis
    using assms(2-) by (simp add: snapshot_def validatedData_def)
qed


section \<open>The aggregation on the sample inputs\<close>

lemmas eval_defs =
  snapshot_def validatedData_def calculateValues_def process_segment_def segment_step_def
  spot_holding_def margin_holding_def futures_holding_def accepted_def track_def Let_def
  get_or_zero_def js_or_def set_add_def keys_length_def tracker0_def sort_js_def
  generate_allocation_def allocation_entry_def generate_sectorValues_def sector_step_def
  by_value_desc_def minus_jsnum_def spot_symbol_def margin_symbol_def futures_symbol_def
  split0_def spot_only_def spot_record_def margin_record_def futures_record_def
  mapAssetToSector_def sectorMap_def included_def

lemma sample_snapshot:
  "snapshot now sample_data =
     \<lparr>total_value = Num 54000, portfolio_change_24h = Num (80 / 9), holdings_count = Num 2,
      spot_value = Num 54000, margin_value = Num 0, futures_value = Num 0,
      asset_allocation =
        Some [\<lparr>asset = ''BTC'', percentage = Num (2500 / 27), alloc_value = Num 50000\<rparr>,
              \<lparr>asset = ''ETH'', percentage = Num (200 / 27), alloc_value = Num 4000\<rparr>],
      sector_allocation =
        Some [\<lparr>asset = ''Store of Value'', percentage = Num (2500 / 27), alloc_value = Num 50000\<rparr>,
              \<lparr>asset = ''Smart Contract Platform'', percentage = Num (200 / 27), alloc_value = Num 4000\<rparr>],
      last_updated = now\<rparr>"
  by (simp add: sample_data_def eval_defs)

lemma infinite_snapshot:
  "snapshot now infinite_total_data =
     \<lparr>total_value = PosInf, portfolio_change_24h = Num 0, holdings_count = Num 1,
      spot_value = PosInf, margin_value = Num 0, futures_value = Num 0,
      asset_allocation =
        Some [\<lparr>asset = ''BTC'', percentage = NaN, alloc_value = PosInf\<rparr>],
      sector_allocation =
        Some [\<lparr>asset = ''Store of Value'', percentage = NaN, alloc_value = PosInf\<rparr>],
      last_updated = now\<rparr>"
  by (simp add: infinite_total_data_def eval_defs inf_of_sign_def)


lemma empty_snapshot:
  "snapshot now empty_data =
     \<lparr>total_value = Num 0, portfolio_change_24h = Num 0, holdings_count = Num 0,
      spot_value = Num 0, margin_value = Num 0, futures_value = Num 0,
      asset_allocation = Some [], sector_allocation = Some [], last_updated = now\<rparr>"
  by (simp add: empty_data_def eval_defs)

lemma sample_included:
  "map symbol (included sample_data) = [''BTC'', ''ETH''] \<and>
   map change_24h (included sample_data) = [Some (Num 10), Some (Num (-5))] \<and>
   map total_usd (included sample_data) = [Num 50000, Num 4000]"
  by (simp add: sample_data_def eval_defs)

section \<open>The claims about the aggregation\<close>




text \<open>
  C8. A record that the inclusion guard rejects, at any place of any segment, changes
  nothing but the raw record count of its segment: the calculated values (totals, segment
  values, unique asset count, both allocations, weighted change) and the three processed
  lists are those of the response without the record, and so is the snapshot up to
  \<^verbatim>\<open>holdings_count\<close>, which counts raw records when no holding is included. A record whose
  coerced amount is 0 is rejected. No scalar field of any snapshot is \<^verbatim>\<open>NaN\<close>.
\<close>

theorem excluded_record_contributes_nothing:
  "(\<not> accepted (spot_holding ks rs) \<longrightarrow>
      calculateValues (data\<lparr>spot_holdings := Some (xs @ (ks, Some rs) # ys)\<rparr>) =
        (case calculateValues (data\<lparr>spot_holdings := Some (xs @ ys)\<rparr>) of
           (c, processed) \<Rightarrow> (c\<lparr>spotCoinsCount := Suc (spotCoinsCount c)\<rparr>, processed)) \<and>
      snapshot now (data\<lparr>spot_holdings := Some (xs @ (ks, Some rs) # ys)\<rparr>) =
        (snapshot now (data\<lparr>spot_holdings := Some (xs @ ys)\<rparr>))
          \<lparr>holdings_count :=
             holdings_count (snapshot now (data\<lparr>spot_holdings := Some (xs @ (ks, Some rs) # ys)\<rparr>))\<rparr>) \<and>
   (\<not> accepted (margin_holding km rm) \<longrightarrow>
      calculateValues (data\<lparr>margin_holdings := Some (xm @ (km, Some rm) # ym)\<rparr>) =
        (case calculateValues (data\<lparr>margin_holdings := Some (xm @ ym)\<rparr>) of
           (c, processed) \<Rightarrow> (c\<lparr>marginCoinsCount := Suc (marginCoinsCount c)\<rparr>, processed)) \<and>
      snapshot now (data\<lparr>margin_holdings := Some (xm @ (km, Some rm) # ym)\<rparr>) =
        (snapshot now (data\<lparr>margin_holdings := Some (xm @ ym)\<rparr>))
          \<lparr>holdings_count :=
             holdings_count (snapshot now (data\<lparr>margin_holdings := Some (xm @ (km, Some rm) # ym)\<rparr>))\<rparr>) \<and>
   (\<not> accepted (futures_holding kf rf) \<longrightarrow>
      calculateValues (data\<lparr>futures_holdings := Some (xf @ (kf, Some rf) # yf)\<rparr>) =
        (case calculateValues (data\<lparr>futures_holdings := Some (xf @ yf)\<rparr>) of
           (c, processed) \<Rightarrow> (c\<lparr>futuresCoinsCount := Suc (futuresCoinsCount c)\<rparr>, processed)) \<and>
      snapshot now (data\<lparr>futures_holdings := Some (xf @ (kf, Some rf) # yf)\<rparr>) =
        (snapshot now (data\<lparr>futures_holdings := Some (xf @ yf)\<rparr>))
          \<lparr>holdings_count :=
             holdings_count (snapshot now (data\<lparr>futures_holdings := Some (xf @ (kf, Some rf) # yf)\<rparr>))\<rparr>) \<and>
   (amount h = Num 0 \<longrightarrow> \<not> accepted h) \<and>
   total_value (snapshot now data) \<noteq> NaN \<and> spot_value (snapshot now data) \<noteq> NaN \<and>
   margin_value (snapshot now data) \<noteq> NaN \<and> futures_value (snapshot now data) \<noteq> NaN \<and>
   portfolio_change_24h (snapshot now data) \<noteq> NaN \<and> holdings_count (snapshot now data) \<noteq> NaN"
proof (intro conjI impI)
  show "\<not> accepted h" if "amount h = Num 0"
    using that by (simp add: accepted_def)
next
  assume a: "\<not> accepted (spot_holding ks rs)"
  show c: "calculateValues (data\<lparr>spot_holdings := Some (xs @ (ks, Some rs) # ys)\<rparr>) =
        (case calculateValues (data\<lparr>spot_holdings := Some (xs @ ys)\<rparr>) of
           (c, processed) \<Rightarrow> (c\<lparr>spotCoinsCount := Suc (spotCoinsCount c)\<rparr>, processed))"
    by (rule spot_drop[OF a])
  show "snapshot now (data\<lparr>spot_holdings := Some (xs @ (ks, Some rs) # ys)\<rparr>) =
        (snapshot now (data\<lparr>spot_holdings := Some (xs @ ys)\<rparr>))
          \<lparr>holdings_count :=
             holdings_count (snapshot now (data\<lparr>spot_holdings := Some (xs @ (ks, Some rs) # ys)\<rparr>))\<rparr>"
    by (rule snapshot_drop[OF c]) simp_all
next
  assume a: "\<not> accepted (margin_holding km rm)"
  show c: "calculateValues (data\<lparr>margin_holdings := Some (xm @ (km, Some rm) # ym)\<rparr>) =
        (case calculateValues (data\<lparr>margin_holdings := Some (xm @ ym)\<rparr>) of
           (c, processed) \<Rightarrow> (c\<lparr>marginCoinsCount := Suc (marginCoinsCount c)\<rparr>, processed))"
    by (rule margin_drop[OF a])
  show "snapshot now (data\<lparr>margin_holdings := Some (xm @ (km, Some rm) # ym)\<rparr>) =
        (snapshot now (data\<lparr>margin_holdings := Some (xm @ ym)\<rparr>))
          \<lparr>holdings_count :=
             holdings_count (snapshot now (data\<lparr>margin_holdings := Some (xm @ (km, Some rm) # ym)\<rparr>))\<rparr>"
    by (rule snapshot_drop[OF c]) simp_all
next
  assume a: "\<not> accepted (futures_holding kf rf)"
  show c: "calculateValues (data\<lparr>futures_holdings := Some (xf @ (kf, Some rf) # yf)\<rparr>) =
        (case calculateValues (data\<lparr>futures_holdings := Some (xf @ yf)\<rparr>) of
           (c, processed) \<Rightarrow> (c\<lparr>futuresCoinsCount := Suc (futuresCoinsCount c)\<rparr>, processed))"
    by (rule futures_drop[OF a])
  show "snapshot now (data\<lparr>futures_holdings := Some (xf @ (kf, Some rf) # yf)\<rparr>) =
        (snapshot now (data\<lparr>futures_holdings := Some (xf @ yf)\<rparr>))
          \<lparr>holdings_count :=
             holdings_count (snapshot now (data\<lparr>futures_holdings := Some (xf @ (kf, Some rf) # yf)\<rparr>))\<rparr>"
    by (rule snapshot_drop[OF c]) simp_all
qed (use snapshot_scalars_not_NaN[of now data] in simp_all)

theorem excluded_record_contributes_nothing_witness:
  "\<not> accepted (spot_holding ''BTC_spot'' malformed_spot) \<and>
   \<not> accepted (margin_holding ''BTC_margin'' malformed_margin) \<and>
   \<not> accepted (futures_holding ''BTCUSDT_futures'' malformed_futures) \<and>
   snapshot ''10:30:15 AM''
     (empty_data\<lparr>spot_holdings := Some [(''BTC_spot'', Some malformed_spot)]\<rparr>) =
     (snapshot ''10:30:15 AM'' (empty_data\<lparr>spot_holdings := Some []\<rparr>))
       \<lparr>holdings_count := Num 1\<rparr> \<and>
   snapshot ''10:30:15 AM''
     (empty_data\<lparr>margin_holdings := Some [(''BTC_margin'', Some malformed_margin)]\<rparr>) =
     (snapshot ''10:30:15 AM'' (empty_data\<lparr>margin_holdings := Some []\<rparr>))
       \<lparr>holdings_count := Num 1\<rparr> \<and>
   snapshot ''10:30:15 AM''
     (empty_data\<lparr>futures_holdings := Some [(''BTCUSDT_futures'', Some malformed_futures)]\<rparr>) =
     (snapshot ''10:30:15 AM'' (empty_data\<lparr>futures_holdings := Some []\<rparr>))
       \<lparr>holdings_count := Num 1\<rparr> \<and>
   amount (spot_holding ''ETH_spot''
             (spot_record (Some (Num 0)) (Some (Num 2000)) (Some (Num 4000)) None)) = Num 0 \<and>
   \<not> accepted (spot_holding ''ETH_spot''
                 (spot_record (Some (Num 0)) (Some (Num 2000)) (Some (Num 4000)) None))"
proof -
  let ?z = "spot_holding ''ETH_spot''
              (spot_record (Some (Num 0)) (Some (Num 2000)) (Some (Num 4000)) None)"
  let ?now = "''10:30:15 AM''"
  let ?ds = "empty_data\<lparr>spot_holdings := Some [(''BTC_spot'', Some malformed_spot)]\<rparr>"
  let ?dm = "empty_data\<lparr>margin_holdings := Some [(''BTC_margin'', Some malformed_margin)]\<rparr>"
  let ?df = "empty_data\<lparr>futures_holdings := Some [(''BTCUSDT_futures'', Some malformed_futures)]\<rparr>"
  have ns: "\<not> accepted (spot_holding ''BTC_spot'' malformed_spot)"
    and nm: "\<not> accepted (margin_holding ''BTC_margin'' malformed_margin)"
    and nf: "\<not> accepted (futures_holding ''BTCUSDT_futures'' malformed_futures)"
    by (simp_all add: malformed_spot_def malformed_margin_def malformed_futures_def eval_defs)
  have z: "amount ?z = Num 0"
    by (simp add: eval_defs)
  have hc: "holdings_count (snapshot ?now ?ds) = Num 1"
    "holdings_count (snapshot ?now ?dm) = Num 1"
    "holdings_count (snapshot ?now ?df) = Num 1"
    by (simp_all add: empty_data_def malformed_spot_def malformed_margin_def
        malformed_futures_def eval_defs)
  note t = excluded_record_contributes_nothing[where ks = "''BTC_spot''" and rs = malformed_spot
      and km = "''BTC_margin''" and rm = malformed_margin
      and kf = "''BTCUSDT_futures''" and rf = malformed_futures
      and data = empty_data and now = ?now and h = ?z
      and xs = "[]" and ys = "[]" and xm = "[]" and ym = "[]" and xf = "[]" and yf = "[]"]
  have s: "snapshot ?now ?ds =
      (snapshot ?now (empty_data\<lparr>spot_holdings := Some []\<rparr>))\<lparr>holdings_count := Num 1\<rparr>"
    using t ns hc(1) by simp
  have m: "snapshot ?now ?dm =
      (snapshot ?now (empty_data\<lparr>margin_holdings := Some []\<rparr>))\<lparr>holdings_count := Num 1\<rparr>"
    using t nm hc(2) by simp
  have f: "snapshot ?now ?df =
      (snapshot ?now (empty_data\<lparr>futures_holdings := Some []\<rparr>))\<lparr>holdings_count := Num 1\<rparr>"
    using t nf hc(3) by simp
  have nz: "\<not> accepted ?z"
    using t z by blast
  show ?thesis
    using ns nm nf s m f z nz by blast
qed


section \<open>Properties of the cache\<close>

lemma map_of_properties:
  assumes "distinct (map fst ps)"
  shows "map_of (concat (map (\<lambda>p. case snd p of None \<Rightarrow> [] | Some v \<Rightarrow> [(fst p, v)]) ps)) k =
           (case map_of ps k of Some (Some v) \<Rightarrow> Some v | _ \<Rightarrow> None)"
  using assms
proof (induction ps)
  case Nil
  then show ?case by simp
next
  case (Cons p ps)
  have absent: "map_of ps (fst p) = None"
    using Cons.prems by (simp add: map_of_eq_None_iff)
  show ?case
  proof (cases "snd p")
    case None
    then show ?thesis
      using Cons absent by (cases p) (auto split: option.splits)
  next
    case (Some v)
    then show ?thesis
      using Cons absent by (cases p) (auto split: option.splits)
  qed
qed

lemma required_number_roundtrip:
  "isFinite x \<Longrightarrow> map_of ps k = Some (stringify_number x) \<Longrightarrow> required_number ps k = Some x"
  by (cases x) (simp_all add: required_number_def stringify_number_def)

lemma optional_number_roundtrip:
  "finite_option x \<Longrightarrow> map_of ps k = map_option stringify_number x \<Longrightarrow>
   optional_number ps k = Some x"
  by (cases x; cases "the x")
     (simp_all add: optional_number_def stringify_number_def finite_option_def)

lemma required_string_roundtrip:
  "map_of ps k = Some (JString s) \<Longrightarrow> required_string ps k = Some s"
  by (simp add: required_string_def)

lemma parse_stringify_Holding:
  assumes "finite_Holding h"
  shows "parse_Holding (stringify_Holding h) = Some h"
proof -
  let ?fs = "[(''symbol'', Some (JString (symbol h))),
        (''amount'', Some (stringify_number (amount h))),
        (''price_usd'', Some (stringify_number (price_usd h))),
        (''total_usd'', Some (stringify_number (total_usd h))),
        (''change_24h'', map_option stringify_number (change_24h h)),
        (''avg_buy_price'', map_option stringify_number (avg_buy_price h)),
        (''pnl'', map_option stringify_number (pnl h)),
        (''pnl_percentage'', map_option stringify_number (pnl_percentage h)),
        (''first_buy_time'', map_option stringify_number (first_buy_time h)),
        (''last_buy_time'', map_option stringify_number (last_buy_time h))]"
  let ?ps = "concat (map (\<lambda>p. case snd p of None \<Rightarrow> [] | Some v \<Rightarrow> [(fst p, v)]) ?fs)"
  have d: "distinct (map fst ?fs)" by simp
  have look: "map_of ?ps k = (case map_of ?fs k of Some (Some v) \<Rightarrow> Some v | _ \<Rightarrow> None)" for k
    by (rule map_of_properties[OF d])
  have l: "map_of ?ps ''symbol'' = Some (JString (symbol h))"
    "map_of ?ps ''amount'' = Some (stringify_number (amount h))"
    "map_of ?ps ''price_usd'' = Some (stringify_number (price_usd h))"
    "map_of ?ps ''total_usd'' = Some (stringify_number (total_usd h))"
    "map_of ?ps ''change_24h'' = map_option stringify_number (change_24h h)"
    "map_of ?ps ''avg_buy_price'' = map_option stringify_number (avg_buy_price h)"
    "map_of ?ps ''pnl'' = map_option stringify_number (pnl h)"
    "map_of ?ps ''pnl_percentage'' = map_option stringify_number (pnl_percentage h)"
    "map_of ?ps ''first_buy_time'' = map_option stringify_number (first_buy_time h)"
    "map_of ?ps ''last_buy_time'' = map_option stringify_number (last_buy_time h)"
    unfolding look by (simp_all split: option.splits)
  note fin = assms[unfolded finite_Holding_def]
  have s: "required_string ?ps ''symbol'' = Some (symbol h)"
    by (rule required_string_roundtrip[OF l(1)])
  have a: "required_number ?ps ''amount'' = Some (amount h)"
    by (rule required_number_roundtrip[OF _ l(2)]) (use fin in blast)
  have p: "required_number ?ps ''price_usd'' = Some (price_usd h)"
    by (rule required_number_roundtrip[OF _ l(3)]) (use fin in blast)
  have t: "required_number ?ps ''total_usd'' = Some (total_usd h)"
    by (rule required_number_roundtrip[OF _ l(4)]) (use fin in blast)
  have c: "optional_number ?ps ''change_24h'' = Some (change_24h h)"
    by (rule optional_number_roundtrip[OF _ l(5)]) (use fin in blast)
  have b: "optional_number ?ps ''avg_buy_price'' = Some (avg_buy_price h)"
    by (rule optional_number_roundtrip[OF _ l(6)]) (use fin in blast)
  have n: "optional_number ?ps ''pnl'' = Some (pnl h)"
    by (rule optional_number_roundtrip[OF _ l(7)]) (use fin in blast)
  have np: "optional_number ?ps ''pnl_percentage'' = Some (pnl_percentage h)"
    by (rule optional_number_roundtrip[OF _ l(8)]) (use fin in blast)
  have fb: "optional_number ?ps ''first_buy_time'' = Some (first_buy_time h)"
    by (rule optional_number_roundtrip[OF _ l(9)]) (use fin in blast)
  have lb: "optional_number ?ps ''last_buy_time'' = Some (last_buy_time h)"
    by (rule optional_number_roundtrip[OF _ l(10)]) (use fin in blast)
  have "stringify_Holding h = JObject ?ps"
    by (simp only: stringify_Holding_def properties_def)
  then show ?thesis
    by (simp only: parse_Holding_def json.case s a p t c b n np fb lb bind.bind_lunit)
       simp
qed

lemma all_some_roundtrip:
  assumes "\<forall>x \<in> set xs. parse (enc x) = Some x"
  shows "all_some (map (parse \<circ> enc) xs) = Some xs"
  using assms by (induction xs) simp_all

lemma parse_stringify_Holdings:
  "list_all finite_Holding hs \<Longrightarrow> parse_Holdings (stringify_Holdings hs) = Some hs"
  by (simp add: parse_Holdings_def stringify_Holdings_def all_some_roundtrip
      parse_stringify_Holding list_all_iff)

lemma parse_stringify_AssetAllocation:
  assumes "finite_AssetAllocation a"
  shows "parse_AssetAllocation (stringify_AssetAllocation a) = Some a"
proof -
  let ?fs = "[(''asset'', Some (JString (asset a))),
        (''value'', Some (stringify_number (alloc_value a))),
        (''percentage'', Some (stringify_number (percentage a)))]"
  let ?ps = "concat (map (\<lambda>p. case snd p of None \<Rightarrow> [] | Some v \<Rightarrow> [(fst p, v)]) ?fs)"
  have l: "map_of ?ps ''asset'' = Some (JString (asset a))"
    "map_of ?ps ''value'' = Some (stringify_number (alloc_value a))"
    "map_of ?ps ''percentage'' = Some (stringify_number (percentage a))"
    by simp_all
  note fin = assms[unfolded finite_AssetAllocation_def]
  have s: "required_string ?ps ''asset'' = Some (asset a)"
    by (rule required_string_roundtrip[OF l(1)])
  have v: "required_number ?ps ''value'' = Some (alloc_value a)"
    by (rule required_number_roundtrip[OF _ l(2)]) (use fin in blast)
  have p: "required_number ?ps ''percentage'' = Some (percentage a)"
    by (rule required_number_roundtrip[OF _ l(3)]) (use fin in blast)
  have "stringify_AssetAllocation a = JObject ?ps"
    by (simp only: stringify_AssetAllocation_def properties_def)
  then show ?thesis
    by (simp only: parse_AssetAllocation_def json.case s v p bind.bind_lunit) simp
qed

lemma optional_allocations_roundtrip:
  assumes "finite_allocations x"
    and "map_of ps k = map_option (\<lambda>as. JArray (map stringify_AssetAllocation as)) x"
  shows "optional_allocations ps k = Some x"
proof (cases x)
  case None
  then show ?thesis using assms(2) by (simp add: optional_allocations_def)
next
  case (Some as)
  then have "all_some (map (parse_AssetAllocation \<circ> stringify_AssetAllocation) as) = Some as"
    using assms(1)
    by (intro all_some_roundtrip)
       (simp add: finite_allocations_def list_all_iff parse_stringify_AssetAllocation)
  then show ?thesis
    using Some assms(2) by (simp add: optional_allocations_def)
qed

lemma parse_stringify_PortfolioData:
  assumes "finite_PortfolioData d"
  shows "parse_PortfolioData (stringify_PortfolioData d) = Some d"
proof -
  let ?fs = "[(''total_value'', Some (stringify_number (total_value d))),
        (''change_24h'', Some (stringify_number (portfolio_change_24h d))),
        (''holdings_count'', Some (stringify_number (holdings_count d))),
        (''spot_value'', Some (stringify_number (spot_value d))),
        (''margin_value'', Some (stringify_number (margin_value d))),
        (''futures_value'', Some (stringify_number (futures_value d))),
        (''asset_allocation'',
           map_option (\<lambda>as. JArray (map stringify_AssetAllocation as)) (asset_allocation d)),
        (''sector_allocation'',
           map_option (\<lambda>as. JArray (map stringify_AssetAllocation as)) (sector_allocation d)),
        (''last_updated'', Some (JString (last_updated d)))]"
  let ?ps = "concat (map (\<lambda>p. case snd p of None \<Rightarrow> [] | Some v \<Rightarrow> [(fst p, v)]) ?fs)"
  have dk: "distinct (map fst ?fs)" by simp
  have look: "map_of ?ps k = (case map_of ?fs k of Some (Some v) \<Rightarrow> Some v | _ \<Rightarrow> None)" for k
    by (rule map_of_properties[OF dk])
  have l: "map_of ?ps ''total_value'' = Some (stringify_number (total_value d))"
    "map_of ?ps ''change_24h'' = Some (stringify_number (portfolio_change_24h d))"
    "map_of ?ps ''holdings_count'' = Some (stringify_number (holdings_count d))"
    "map_of ?ps ''spot_value'' = Some (stringify_number (spot_value d))"
    "map_of ?ps ''margin_value'' = Some (stringify_number (margin_value d))"
    "map_of ?ps ''futures_value'' = Some (stringify_number (futures_value d))"
    "map_of ?ps ''asset_allocation'' =
       map_option (\<lambda>as. JArray (map stringify_AssetAllocation as)) (asset_allocation d)"
    "map_of ?ps ''sector_allocation'' =
       map_option (\<lambda>as. JArray (map stringify_AssetAllocation as)) (sector_allocation d)"
    "map_of ?ps ''last_updated'' = Some (JString (last_updated d))"
    unfolding look by (simp_all split: option.splits)
  note fin = assms[unfolded finite_PortfolioData_def]
  have t: "required_number ?ps ''total_value'' = Some (total_value d)"
    by (rule required_number_roundtrip[OF _ l(1)]) (use fin in blast)
  have c: "required_number ?ps ''change_24h'' = Some (portfolio_change_24h d)"
    by (rule required_number_roundtrip[OF _ l(2)]) (use fin in blast)
  have n: "required_number ?ps ''holdings_count'' = Some (holdings_count d)"
    by (rule required_number_roundtrip[OF _ l(3)]) (use fin in blast)
  have s: "required_number ?ps ''spot_value'' = Some (spot_value d)"
    by (rule required_number_roundtrip[OF _ l(4)]) (use fin in blast)
  have m: "required_number ?ps ''margin_value'' = Some (margin_value d)"
    by (rule required_number_roundtrip[OF _ l(5)]) (use fin in blast)
  have f: "required_number ?ps ''futures_value'' = Some (futures_value d)"
    by (rule required_number_roundtrip[OF _ l(6)]) (use fin in blast)
  have aa: "optional_allocations ?ps ''asset_allocation'' = Some (asset_allocation d)"
    by (rule optional_allocations_roundtrip[OF _ l(7)]) (use fin in blast)
  have sa: "optional_allocations ?ps ''sector_allocation'' = Some (sector_allocation d)"
    by (rule optional_allocations_roundtrip[OF _ l(8)]) (use fin in blast)
  have u: "required_string ?ps ''last_updated'' = Some (last_updated d)"
    by (rule required_string_roundtrip[OF l(9)])
  have "stringify_PortfolioData d = JObject ?ps"
    by (simp only: stringify_PortfolioData_def properties_def)
  then show ?thesis
    by (simp only: parse_PortfolioData_def json.case t c n s m f aa sa u bind.bind_lunit) simp
qed

lemma saved_items:
  "saveDataToCache d a b c store ''binance_portfolio_data'' = Some (stringify_PortfolioData d)"
  "saveDataToCache d a b c store ''binance_spot_holdings'' = Some (stringify_Holdings a)"
  "saveDataToCache d a b c store ''binance_margin_holdings'' = Some (stringify_Holdings b)"
  "saveDataToCache d a b c store ''binance_futures_holdings'' = Some (stringify_Holdings c)"
  by (simp_all add: saveDataToCache_def)

lemma load_after_save:
  assumes "finite_PortfolioData d" and "list_all finite_Holding a"
    and "list_all finite_Holding b" and "list_all finite_Holding c"
  shows "loadCachedData env (saveDataToCache d a b c store) st =
           Some (st\<lparr>portfolioData :=
                       d\<lparr>last_updated := time_string_of env (last_updated d) @ '' (cached)''\<rparr>,
                     spotHoldings := a, marginHoldings := b, futuresHoldings := c\<rparr>,
                 True)"
  using assms
  by (simp add: loadCachedData_def cached_item_def saved_items parse_stringify_PortfolioData
      parse_stringify_Holdings)

lemma sample_included_list:
  "included sample_data =
     [\<lparr>symbol = ''BTC'', amount = Num 1, price_usd = Num 50000, total_usd = Num 50000,
       change_24h = Some (Num 10), avg_buy_price = None, pnl = None, pnl_percentage = None,
       first_buy_time = None, last_buy_time = None\<rparr>,
      \<lparr>symbol = ''ETH'', amount = Num 2, price_usd = Num 2000, total_usd = Num 4000,
       change_24h = Some (Num (- 5)), avg_buy_price = None, pnl = None, pnl_percentage = None,
       first_buy_time = None, last_buy_time = None\<rparr>]"
  by (simp add: sample_data_def eval_defs)

lemma sample_finite:
  "finite_PortfolioData (snapshot now sample_data)"
  "list_all finite_Holding (included sample_data)"
  by (simp_all add: sample_snapshot sample_included_list finite_PortfolioData_def
      finite_allocations_def finite_AssetAllocation_def finite_Holding_def finite_option_def)

lemma fallback_finite: "finite_PortfolioData (fallback_portfolioData now)"
  by (simp add: fallback_portfolioData_def finite_PortfolioData_def finite_allocations_def)

text \<open>
  C5, amended. For every snapshot and segment lists whose numbers are all finite, the load
  after a save returns a snapshot that agrees with the saved one in every field but
  \<^verbatim>\<open>last_updated\<close>, which ends in the marker \<^verbatim>\<open> (cached)\<close>; it returns the three lists
  unchanged and reports a hit. The load only reads the storage: the stored snapshot is the
  saved one, with its own \<^verbatim>\<open>last_updated\<close>. (What stands before the marker is the platform's
  rendering of the stored text re-read as a date, see \<open>load_after_save\<close>.)
\<close>

theorem cache_round_trip:
  assumes "finite_PortfolioData d" and "list_all finite_Holding a"
    and "list_all finite_Holding b" and "list_all finite_Holding c"
  shows "\<exists>st'. loadCachedData env (saveDataToCache d a b c store) st = Some (st', True) \<and>
           portfolioData st' = d\<lparr>last_updated := last_updated (portfolioData st')\<rparr> \<and>
           suffix '' (cached)'' (last_updated (portfolioData st')) \<and>
           spotHoldings st' = a \<and> marginHoldings st' = b \<and> futuresHoldings st' = c \<and>
           Option.bind (saveDataToCache d a b c store ''binance_portfolio_data'')
             parse_PortfolioData = Some d"
  using load_after_save[OF assms] assms(1)
  by (simp add: saved_items parse_stringify_PortfolioData suffix_def)

theorem cache_round_trip_witness:
  "finite_PortfolioData (snapshot ''10:30:15 AM'' sample_data) \<and>
   list_all finite_Holding (included sample_data) \<and>
   list_all finite_Holding [] \<and>
   (\<exists>st'. loadCachedData sample_platform
            (saveDataToCache (snapshot ''10:30:15 AM'' sample_data) (included sample_data) [] []
               empty_storage)
            (initial_state ''10:31:00 AM'') = Some (st', True) \<and>
          total_value (portfolioData st') = Num 54000 \<and>
          suffix '' (cached)'' (last_updated (portfolioData st')) \<and>
          spotHoldings st' = included sample_data \<and> marginHoldings st' = [] \<and>
          futuresHoldings st' = [])"
proof -
  let ?d = "snapshot ''10:30:15 AM'' sample_data"
  have f: "finite_PortfolioData ?d" "list_all finite_Holding (included sample_data)"
    by (rule sample_finite)+
  have e: "list_all finite_Holding []"
    by simp
  obtain st' where l: "loadCachedData sample_platform
            (saveDataToCache ?d (included sample_data) [] [] empty_storage)
            (initial_state ''10:31:00 AM'') = Some (st', True)"
    and p: "portfolioData st' = ?d\<lparr>last_updated := last_updated (portfolioData st')\<rparr>"
    and m: "suffix '' (cached)'' (last_updated (portfolioData st'))"
    and h: "spotHoldings st' = included sample_data" "marginHoldings st' = []"
      "futuresHoldings st' = []"
    using cache_round_trip[OF f e e, of sample_platform empty_storage "initial_state ''10:31:00 AM''"]
    by blast
  have "total_value (portfolioData st') = total_value ?d"
    by (subst p) simp
  then have t: "total_value (portfolioData st') = Num 54000"
    by (simp add: sample_snapshot)
  have "\<exists>st'. loadCachedData sample_platform
            (saveDataToCache ?d (included sample_data) [] [] empty_storage)
            (initial_state ''10:31:00 AM'') = Some (st', True) \<and>
          total_value (portfolioData st') = Num 54000 \<and>
          suffix '' (cached)'' (last_updated (portfolioData st')) \<and>
          spotHoldings st' = included sample_data \<and> marginHoldings st' = [] \<and>
          futuresHoldings st' = []"
    using l t m h by (intro exI[of _ st'] conjI)
  then show ?thesis
    using f e by (intro conjI)
qed

text \<open>
  C5 as stated fails twice. The snapshot that the page writes carries a time of day in
  \<^verbatim>\<open>last_updated\<close>; the load re-reads that text as a date, which a platform that takes no
  time of day alone for a date renders as \<^verbatim>\<open>Invalid Date\<close>, so the loaded text is
  \<^verbatim>\<open>Invalid Date (cached)\<close> and not the saved text with the marker. And a snapshot with a
  number that is not finite does not survive the storage: \<^verbatim>\<open>JSON.stringify\<close> writes
  \<^verbatim>\<open>null\<close> for it.
\<close>

theorem cached_marker_counterexample:
  "map_option (\<lambda>r. last_updated (portfolioData (fst r)))
     (loadCachedData sample_platform
        (saveDataToCache (fallback_portfolioData ''10:30:15 AM'') [] [] [] empty_storage)
        (initial_state ''10:31:00 AM'')) = Some ''Invalid Date (cached)'' \<and>
   ''Invalid Date (cached)'' \<noteq> last_updated (fallback_portfolioData ''10:30:15 AM'') @ '' (cached)'' \<and>
   total_value (snapshot ''10:30:15 AM'' infinite_total_data) = PosInf \<and>
   stringify_number (total_value (snapshot ''10:30:15 AM'' infinite_total_data)) = JNull \<and>
   parse_PortfolioData (stringify_PortfolioData (snapshot ''10:30:15 AM'' infinite_total_data))
     = None"
proof -
  have "loadCachedData sample_platform
        (saveDataToCache (fallback_portfolioData ''10:30:15 AM'') [] [] [] empty_storage)
        (initial_state ''10:31:00 AM'') =
      Some ((initial_state ''10:31:00 AM'')
              \<lparr>portfolioData :=
                 (fallback_portfolioData ''10:30:15 AM'')
                   \<lparr>last_updated :=
                      time_string_of sample_platform
                        (last_updated (fallback_portfolioData ''10:30:15 AM'')) @ '' (cached)''\<rparr>,
               spotHoldings := [], marginHoldings := [], futuresHoldings := []\<rparr>, True)"
    by (rule load_after_save) (simp_all add: fallback_finite)
  then have a: "map_option (\<lambda>r. last_updated (portfolioData (fst r)))
     (loadCachedData sample_platform
        (saveDataToCache (fallback_portfolioData ''10:30:15 AM'') [] [] [] empty_storage)
        (initial_state ''10:31:00 AM'')) = Some ''Invalid Date (cached)''"
    by (simp add: time_string_of_def sample_platform_def)
  have b: "''Invalid Date (cached)'' \<noteq> last_updated (fallback_portfolioData ''10:30:15 AM'') @ '' (cached)''"
    by (simp add: fallback_portfolioData_def)
  have c: "total_value (snapshot ''10:30:15 AM'' infinite_total_data) = PosInf"
    "stringify_number (total_value (snapshot ''10:30:15 AM'' infinite_total_data)) = JNull"
    by (simp_all add: infinite_snapshot stringify_number_def)
  have d: "parse_PortfolioData (stringify_PortfolioData (snapshot ''10:30:15 AM'' infinite_total_data))
     = None"
    by (simp add: infinite_snapshot stringify_PortfolioData_def properties_def
        stringify_number_def parse_PortfolioData_def required_number_def)
  show ?thesis
    using a b c d by (intro conjI)
qed

section \<open>Properties of the fetch\<close>

lemma fetch_success:
  "fetchPortfolioData now seen bg (Success data) (st, store) =
     (st\<lparr>error := None,
         spotHoldings := fst (snd (calculateValues data)),
         marginHoldings := fst (snd (snd (calculateValues data))),
         futuresHoldings := snd (snd (snd (calculateValues data))),
         portfolioData := snapshot now data,
         isLoading := (if bg then isLoading st else False),
         isRefreshing := (if bg then False else isRefreshing st)\<rparr>,
      saveDataToCache (snapshot now data) (spotHoldings seen) (marginHoldings seen)
        (futuresHoldings seen) store)"
  by (cases bg) (simp_all add: fetchPortfolioData_def Let_def snapshot_def)

lemma fetch_failure_foreground:
  assumes "failed response"
  shows "fetchPortfolioData now seen False response (st, store) =
     (if total_value (portfolioData seen) = Num 0
      then st\<lparr>error := Some (error_message response),
              portfolioData := fallback_portfolioData now,
              spotHoldings := fallback_spotHoldings,
              marginHoldings := fallback_marginHoldings,
              futuresHoldings := fallback_futuresHoldings,
              isLoading := False\<rparr>
      else st\<lparr>error := Some (error_message response), isLoading := False\<rparr>,
      store)"
  using assms
  by (cases response) (simp_all add: fetchPortfolioData_def Let_def failed_def)

lemma sample_processed:
  "snd (calculateValues sample_data) = (included sample_data, [], [])"
  unfolding sample_included_list by (simp add: sample_data_def eval_defs)

text \<open>
  C6, on a failing input. The page is mounted on an empty cache: the state and the render
  that the fetch function belongs to are the initial ones, and the response holds the two
  holdings of the sample. After the fetch the state holds the fresh snapshot and the fresh
  spot list and no error, and the fresh snapshot is stored; but the spot list stored is the
  empty list of the render, not the fresh list of two holdings.
\<close>

theorem fetch_persists_stale_lists:
  "spotHoldings (fst (fetchPortfolioData ''10:30:15 AM'' (initial_state ''10:30:00 AM'') False
      (Success sample_data) (initial_state ''10:30:00 AM'', empty_storage))) =
     included sample_data \<and>
   portfolioData (fst (fetchPortfolioData ''10:30:15 AM'' (initial_state ''10:30:00 AM'') False
      (Success sample_data) (initial_state ''10:30:00 AM'', empty_storage))) =
     snapshot ''10:30:15 AM'' sample_data \<and>
   error (fst (fetchPortfolioData ''10:30:15 AM'' (initial_state ''10:30:00 AM'') False
      (Success sample_data) (initial_state ''10:30:00 AM'', empty_storage))) = None \<and>
   snd (fetchPortfolioData ''10:30:15 AM'' (initial_state ''10:30:00 AM'') False
      (Success sample_data) (initial_state ''10:30:00 AM'', empty_storage))
     ''binance_portfolio_data'' = Some (stringify_PortfolioData (snapshot ''10:30:15 AM'' sample_data)) \<and>
   snd (fetchPortfolioData ''10:30:15 AM'' (initial_state ''10:30:00 AM'') False
      (Success sample_data) (initial_state ''10:30:00 AM'', empty_storage))
     ''binance_spot_holdings'' = Some (JArray []) \<and>
   map symbol (included sample_data) = [''BTC'', ''ETH''] \<and>
   stringify_Holdings (included sample_data) \<noteq> JArray []"
  unfolding fetch_success
  by (simp add: saved_items sample_processed sample_included_list stringify_Holdings_def
      initial_state_def)

text \<open>
  C7, on a failing input. The page is mounted on an empty cache, so the effect starts a
  foreground fetch, with the function of the first render; that function sees the initial
  snapshot, whose total is 0, for as long as it runs. While the call is pending, the
  interval's fetch resolves with the sample response: the state now holds a snapshot with
  total 54000 and two spot holdings. Then the pending foreground call is rejected. The
  \<^verbatim>\<open>catch\<close> block tests the total that the function sees, not the total of the state, and
  installs the sample snapshot (total 34567.89) and the sample holdings over the data of the
  state. The comment in the source reads \<^verbatim>\<open>Only set fallback data if we don't have any data
  yet\<close>.
\<close>

theorem stale_closure_installs_fallback:
  "total_value (portfolioData (initial_state ''10:30:00 AM'')) = Num 0 \<and>
   portfolioData (fst after_interval_fetch) = snapshot ''10:30:31 AM'' sample_data \<and>
   total_value (portfolioData (fst after_interval_fetch)) = Num 54000 \<and>
   map symbol (spotHoldings (fst after_interval_fetch)) = [''BTC'', ''ETH''] \<and>
   fst (fetchPortfolioData ''10:30:40 AM'' (initial_state ''10:30:00 AM'') False
          (Rejected (Some ''Network Error'')) after_interval_fetch) =
     (fst after_interval_fetch)
       \<lparr>error := Some ''Network Error'',
        portfolioData := fallback_portfolioData ''10:30:40 AM'',
        spotHoldings := fallback_spotHoldings,
        marginHoldings := fallback_marginHoldings,
        futuresHoldings := fallback_futuresHoldings,
        isLoading := False\<rparr> \<and>
   total_value (fallback_portfolioData ''10:30:40 AM'') = Num 34567.89 \<and>
   map symbol fallback_spotHoldings = [''BTC'', ''ETH'', ''SOL''] \<and>
   map total_usd fallback_spotHoldings = [Num 19125, Num 9100, Num 5778] \<and>
   map symbol fallback_marginHoldings = [''BTC'', ''ETH''] \<and>
   map total_usd fallback_marginHoldings = [Num 5100, Num 3220] \<and>
   map symbol fallback_futuresHoldings = [''BTC'', ''ETH''] \<and>
   map total_usd fallback_futuresHoldings = [Num 3400, Num 3976] \<and>
   total_value (portfolioData (fst after_interval_fetch))
     \<noteq> total_value (fallback_portfolioData ''10:30:40 AM'')"
proof -
  have a: "fst after_interval_fetch =
      (initial_state ''10:30:00 AM'')
        \<lparr>spotHoldings := included sample_data,
         portfolioData := snapshot ''10:30:31 AM'' sample_data\<rparr>"
    unfolding after_interval_fetch_def fetch_success
    by (simp add: sample_processed initial_state_def)
  have f: "failed (Rejected (Some ''Network Error''))"
    by (simp add: failed_def)
  have z: "total_value (portfolioData (initial_state ''10:30:00 AM'')) = Num 0"
    by (simp add: initial_state_def)
  have r: "fst (fetchPortfolioData ''10:30:40 AM'' (initial_state ''10:30:00 AM'') False
          (Rejected (Some ''Network Error'')) after_interval_fetch) =
     (fst after_interval_fetch)
       \<lparr>error := Some ''Network Error'',
        portfolioData := fallback_portfolioData ''10:30:40 AM'',
        spotHoldings := fallback_spotHoldings,
        marginHoldings := fallback_marginHoldings,
        futuresHoldings := fallback_futuresHoldings,
        isLoading := False\<rparr>"
    using fetch_failure_foreground[OF f, of "''10:30:40 AM''" "initial_state ''10:30:00 AM''"
        "fst after_interval_fetch" "snd after_interval_fetch"] z
    by (simp add: error_message_def)
  have s: "portfolioData (fst after_interval_fetch) = snapshot ''10:30:31 AM'' sample_data"
    "total_value (portfolioData (fst after_interval_fetch)) = Num 54000"
    "map symbol (spotHoldings (fst after_interval_fetch)) = [''BTC'', ''ETH'']"
    unfolding a by (simp_all add: sample_snapshot sample_included_list)
  have l: "total_value (fallback_portfolioData ''10:30:40 AM'') = Num 34567.89"
    "map symbol fallback_spotHoldings = [''BTC'', ''ETH'', ''SOL'']"
    "map total_usd fallback_spotHoldings = [Num 19125, Num 9100, Num 5778]"
    "map symbol fallback_marginHoldings = [''BTC'', ''ETH'']"
    "map total_usd fallback_marginHoldings = [Num 5100, Num 3220]"
    "map symbol fallback_futuresHoldings = [''BTC'', ''ETH'']"
    "map total_usd fallback_futuresHoldings = [Num 3400, Num 3976]"
    by (simp_all add: fallback_portfolioData_def fallback_spotHoldings_def
        fallback_marginHoldings_def fallback_futuresHoldings_def sample_holding_def)
  have d: "total_value (portfolioData (fst after_interval_fetch))
     \<noteq> total_value (fallback_portfolioData ''10:30:40 AM'')"
    unfolding s(2) l(1) by simp
  show ?thesis
    using z s r l d by (intro conjI)
qed

section \<open>Properties of the formatters\<close>

text \<open>
  C9, amended. For a finite value the quantity formatter asks the platform for 2 fraction
  digits when the value is at least 0.1 and for 6 (its \<^verbatim>\<open>decimals\<close>, by default) when the
  value is below 0.1, every negative value included. The currency, quantity and percentage
  formatters return their defaults for an input that is not finite (and the percentage
  formatter of the table for an absent one); the date formatter returns the empty string
  for an absent timestamp, for 0 and for \<^verbatim>\<open>NaN\<close>.
\<close>

theorem formatter_defaults:
  "(1 / 10 \<le> r \<longrightarrow>
      formatNumber_default env (Num r) =
        numberFormat env \<lparr>style = Decimal, minimumFractionDigits = 2,
          maximumFractionDigits = 2, signDisplayAlways = False\<rparr> r) \<and>
   (r < 1 / 10 \<longrightarrow>
      formatNumber_default env (Num r) =
        numberFormat env \<lparr>style = Decimal, minimumFractionDigits = 6,
          maximumFractionDigits = 6, signDisplayAlways = False\<rparr> r) \<and>
   (\<not> isFinite v \<longrightarrow>
      formatCurrency env v = ''$0.00'' \<and> formatNumber env v decimals = ''0'' \<and>
      formatPercentage env (Some v) = ''-'' \<and> page_formatPercentage env v = ''0.00%'') \<and>
   formatPercentage env None = ''-'' \<and>
   formatDate env None = [] \<and> formatDate env (Some NaN) = [] \<and>
   formatDate env (Some (Num 0)) = []"
  by (cases v)
     (simp_all add: formatNumber_default_def formatNumber_def quantity_digits_def
       formatCurrency_def formatPercentage_def page_formatPercentage_def formatDate_def)

theorem formatter_defaults_witness:
  "\<forall>env.
     formatNumber_default env (Num (1 / 2)) =
       numberFormat env \<lparr>style = Decimal, minimumFractionDigits = 2,
         maximumFractionDigits = 2, signDisplayAlways = False\<rparr> (1 / 2) \<and>
     formatNumber_default env (Num (- 5)) =
       numberFormat env \<lparr>style = Decimal, minimumFractionDigits = 6,
         maximumFractionDigits = 6, signDisplayAlways = False\<rparr> (- 5) \<and>
     \<not> isFinite PosInf \<and>
     formatCurrency env PosInf = ''$0.00'' \<and> formatNumber env PosInf 6 = ''0'' \<and>
     formatPercentage env (Some PosInf) = ''-'' \<and> page_formatPercentage env PosInf = ''0.00%''"
proof
  fix env
  have a: "(1 / 10 :: real) \<le> 1 / 2" and b: "(- 5 :: real) < 1 / 10" and c: "\<not> isFinite PosInf"
    by simp_all
  show "formatNumber_default env (Num (1 / 2)) =
       numberFormat env \<lparr>style = Decimal, minimumFractionDigits = 2,
         maximumFractionDigits = 2, signDisplayAlways = False\<rparr> (1 / 2) \<and>
     formatNumber_default env (Num (- 5)) =
       numberFormat env \<lparr>style = Decimal, minimumFractionDigits = 6,
         maximumFractionDigits = 6, signDisplayAlways = False\<rparr> (- 5) \<and>
     \<not> isFinite PosInf \<and>
     formatCurrency env PosInf = ''$0.00'' \<and> formatNumber env PosInf 6 = ''0'' \<and>
     formatPercentage env (Some PosInf) = ''-'' \<and> page_formatPercentage env PosInf = ''0.00%''"
    using formatter_defaults[of "1 / 2" env PosInf 6] formatter_defaults[of "- 5" env PosInf 6]
      a b c by blast
qed

text \<open>
  C9 as stated fails: \<open>-5\<close> has an absolute value of at least 0.1, but the quantity
  formatter compares the value itself with 0.1 and asks for 6 fraction digits; and the date
  formatter lets the truthy \<^verbatim>\<open>Infinity\<close> through to \<^verbatim>\<open>new Date\<close>, whose invalid date is
  rendered as \<^verbatim>\<open>Invalid Date\<close>, not as the empty string.
\<close>

theorem quantity_negative_counterexample:
  "(1 / 10 :: real) \<le> \<bar>- 5\<bar> \<and> quantity_digits (Num (- 5)) 6 = 6 \<and>
   quantity_digits (Num (- 5)) 6 \<noteq> 2 \<and>
   \<not> isFinite PosInf \<and> formatDate sample_platform (Some PosInf) = ''Invalid Date'' \<and>
   formatDate sample_platform (Some PosInf) \<noteq> []"
  by (simp add: quantity_digits_def formatDate_def date_string_of_def new_Date_def)

end
